theory Spec2Isabelle
  imports Main "HOL-Library.AList" "HOL-Library.Sublist"
begin

section \<open>Values, objects and the object store\<close>

text \<open>
  JavaScript values as far as the model layer handles them. \<open>JJson v\<close> is the string
  that \<^verbatim>\<open>JSON.stringify\<close> produces for \<open>v\<close>: a string value whose text is determined
  by \<open>v\<close>. A number \<open>JNum n\<close> is the JavaScript number (a double) of the integer value
  \<open>n\<close>; arithmetic on numbers rounds as doubles do (\<open>round_double\<close> below).

  Naming: a leading \<^verbatim>\<open>$\<close> of the source is written \<open>S_\<close> and a leading \<^verbatim>\<open>$$\<close> is written
  \<open>SS_\<close> (\<^verbatim>\<open>$$insert\<close> is \<open>SS_insert\<close>, \<^verbatim>\<open>$clone\<close> is \<open>S_clone\<close>).
\<close>

datatype jsval =
    JUndefined
  | JNull
  | JBool bool
  | JNum int
  | JStr string
  | JArr "jsval list"
  | JObj "(string \<times> jsval) list"
  | JJson jsval

type_synonym fields = "string \<rightharpoonup> jsval"

text \<open>
  An object of the store: \<open>ctor\<close> is the name of the model class that constructed it
  (\<open>None\<close> for a plain object literal), \<open>props\<close> its own properties. The store is a
  list indexed by address; \<^verbatim>\<open>new\<close> appends.
\<close>

record object =
  ctor :: "string option"
  props :: fields

type_synonym addr = nat
type_synonym heap = "object list"

definition alloc :: "heap \<Rightarrow> object \<Rightarrow> heap \<times> addr" where
  "alloc h ob = (h @ [ob], length h)"

definition set_prop :: "heap \<Rightarrow> addr \<Rightarrow> string \<Rightarrow> jsval \<Rightarrow> heap" where
  "set_prop h a k v = h[a := (h ! a)\<lparr>props := (props (h ! a))(k \<mapsto> v)\<rparr>]"

definition delete_prop :: "heap \<Rightarrow> addr \<Rightarrow> string \<Rightarrow> heap" where
  "delete_prop h a k = h[a := (h ! a)\<lparr>props := (props (h ! a))(k := None)\<rparr>]"

text \<open>
  What a caller passes where a model is expected: a reference to an object (a plain
  object or a model instance), or a falsy value (\<^verbatim>\<open>undefined\<close>, \<^verbatim>\<open>null\<close>). An argument
  is one such item or an array of them.
\<close>

datatype item = Ref addr | Falsy

datatype arg = One item | Many "item list"

datatype verror = MissingRequired string | InvalidType string

datatype error =
    TypeError
  | SyntaxError
  | ValidationError "verror list"
  | Error string

section \<open>JSON schema and its validation\<close>

datatype jtype = TString | TNumber | TInteger | TBoolean | TObject | TArray | TNull

record prop_schema =
  ptype :: "jtype option"
  pdefault :: "jsval option"

record json_schema =
  required :: "string list"
  properties :: "(string \<times> prop_schema) list"

text \<open>
  Modelled from the spec: the relation object (the relation classes are not among the
  sources; the tests read these properties). A relation has a name, a variant, the
  related model class (by name), the instance properties \<open>ownerProp\<close> and
  \<open>relatedProp\<close> that link owner and related rows, and for a many-to-many relation
  the bridge table with its two linking columns. \<open>joinFrom\<close> and \<open>joinTo\<close> are the
  declared join columns (\<^verbatim>\<open>Owner.col\<close> and \<^verbatim>\<open>Related.col\<close>).
\<close>

datatype relation_kind = HasOneRelation | HasManyRelation | ManyToManyRelation

record relation =
  rname :: string
  kind :: relation_kind
  relatedModelClass :: string
  joinFrom :: string
  joinTo :: string
  ownerProp :: string
  relatedProp :: string
  joinTable :: string
  joinTableOwnerCol :: string
  joinTableRelatedCol :: string

text \<open>
  The model class: the static properties of a \<^verbatim>\<open>MoronModel\<close> subclass that the code
  below reads. \<open>relationMappings\<close> lists the relations by name, with their mappings
  resolved (\<^verbatim>\<open>getRelations\<close> builds the relation objects from it once).
\<close>

record model_class =
  cname :: string
  tableName :: string
  idColumn :: string
  jsonSchema :: "json_schema option"
  jsonAttributes :: "string list option"
  relationMappings :: "(string \<times> relation) list"

text \<open>
  \<^verbatim>\<open>tv4.validateMultiple\<close> (the external validator) on the schemas of this model: an
  error for each required key whose value is \<^verbatim>\<open>undefined\<close> in the data, then an error
  for each property of the data that the schema declares with another type.
\<close>

fun has_type :: "jsval \<Rightarrow> jtype \<Rightarrow> bool" where
  "has_type (JStr s) TString = True"
| "has_type (JJson v) TString = True"
| "has_type (JNum n) TNumber = True"
| "has_type (JNum n) TInteger = True"
| "has_type (JBool b) TBoolean = True"
| "has_type (JObj kvs) TObject = True"
| "has_type (JArr vs) TArray = True"
| "has_type JNull TNull = True"
| "has_type v t = False"

definition is_present :: "fields \<Rightarrow> string \<Rightarrow> bool" where
  "is_present json k = (case json k of None \<Rightarrow> False | Some JUndefined \<Rightarrow> False | Some v \<Rightarrow> True)"

definition type_ok :: "fields \<Rightarrow> string \<times> prop_schema \<Rightarrow> bool" where
  "type_ok json kp =
     (case json (fst kp) of
        None \<Rightarrow> True
      | Some v \<Rightarrow> (case ptype (snd kp) of None \<Rightarrow> True | Some t \<Rightarrow> has_type v t))"

definition tv4_validateMultiple :: "fields \<Rightarrow> json_schema \<Rightarrow> verror list" where
  "tv4_validateMultiple json schema =
     map MissingRequired (filter (\<lambda>k. \<not> is_present json k) (required schema)) @
     map (\<lambda>kp. InvalidType (fst kp)) (filter (\<lambda>kp. \<not> type_ok json kp) (properties schema))"


section \<open>MoronModelBase\<close>

text \<open>
  \<^verbatim>\<open>MoronModelBase.$$mergeWithDefaults\<close>: every schema property that the JSON does not
  have (\<^verbatim>\<open>_.has\<close>: as an own key) and that declares a default is added with its default.
\<close>

definition SS_mergeWithDefaults :: "model_class \<Rightarrow> fields \<Rightarrow> fields" where
  "SS_mergeWithDefaults C json =
     (case jsonSchema C of
        None \<Rightarrow> json
      | Some schema \<Rightarrow>
          foldl (\<lambda>merged kp.
                   if json (fst kp) = None
                   then (case pdefault (snd kp) of
                           Some d \<Rightarrow> merged(fst kp \<mapsto> d)
                         | None \<Rightarrow> merged)
                   else merged)
                json (properties schema))"

text \<open>
  \<^verbatim>\<open>$$parseValidationError\<close>: \<^verbatim>\<open>null\<close> for an empty report, else the validation error.
  The error carries the report's errors; the source keys them by property name in a hash.
\<close>

definition SS_parseValidationError :: "verror list \<Rightarrow> error option" where
  "SS_parseValidationError report =
     (if length report = 0 then None else Some (ValidationError report))"

text \<open>
  \<^verbatim>\<open>$validate(json, options)\<close> with \<^verbatim>\<open>$beforeValidate\<close> and \<^verbatim>\<open>$afterValidate\<close> as the base
  class has them (they change nothing). With \<^verbatim>\<open>options.patch\<close> the schema's \<^verbatim>\<open>required\<close>
  list is emptied for the call of the validator.
\<close>

definition S_validate :: "model_class \<Rightarrow> fields \<Rightarrow> bool \<Rightarrow> error + fields" where
  "S_validate C json patch =
     (case jsonSchema C of
        None \<Rightarrow> Inr json
      | Some jsonSchema0 \<Rightarrow>
          (let schema = (if patch then jsonSchema0\<lparr>required := []\<rparr> else jsonSchema0);
               report = tv4_validateMultiple json schema
           in case SS_parseValidationError report of
                Some validationError \<Rightarrow> Inl validationError
              | None \<Rightarrow> Inr json))"

text \<open>
  \<^verbatim>\<open>hasOwnJsonProperty\<close>: keys that start with \<^verbatim>\<open>$\<close> are not JSON properties (values are
  never functions here).
\<close>

fun hasOwnJsonProperty :: "string \<Rightarrow> bool" where
  "hasOwnJsonProperty [] = True"
| "hasOwnJsonProperty (c # cs) = (c \<noteq> CHR 0x24)"

definition own_json :: "fields \<Rightarrow> fields" where
  "own_json json = (\<lambda>k. if hasOwnJsonProperty k then json k else None)"

text \<open>
  \<^verbatim>\<open>$setJson(json, options)\<close>, returning the properties it assigns to \<^verbatim>\<open>this\<close>:
  defaults are merged unless \<^verbatim>\<open>options.patch\<close>, \<^verbatim>\<open>$parseJson\<close> is the identity of the
  base class, the result is validated and its JSON properties are copied. The override
  \<^verbatim>\<open>MoronModel.prototype.$setJson\<close> returns right after the base call, since
  \<^verbatim>\<open>relations.length\<close> is \<^verbatim>\<open>undefined\<close> on the relation table.
\<close>

definition S_setJson :: "model_class \<Rightarrow> fields \<Rightarrow> bool \<Rightarrow> error + fields" where
  "S_setJson C json0 patch =
     (let json = (if \<not> patch then SS_mergeWithDefaults C json0 else json0)
      in case S_validate C json patch of
           Inl e \<Rightarrow> Inl e
         | Inr json' \<Rightarrow> Inr (own_json json'))"

text \<open>\<^verbatim>\<open>fromJson(json, options)\<close>: a new instance of the class with the properties set.\<close>

definition fromJson :: "heap \<Rightarrow> model_class \<Rightarrow> fields \<Rightarrow> bool \<Rightarrow> error + (heap \<times> addr)" where
  "fromJson h C json patch =
     (case S_setJson C json patch of
        Inl e \<Rightarrow> Inl e
      | Inr fs \<Rightarrow> Inr (alloc h \<lparr>ctor = Some (cname C), props = fs\<rparr>))"

text \<open>
  \<^verbatim>\<open>$clone()\<close>: a new object of the same constructor with a deep copy of every own
  property (values are immutable here, so the copy of a value is the value).
\<close>

definition S_clone :: "heap \<Rightarrow> addr \<Rightarrow> heap \<times> addr" where
  "S_clone h a = alloc h \<lparr>ctor = ctor (h ! a), props = props (h ! a)\<rparr>"


section \<open>MoronModel: JSON conversion and identity\<close>

text \<open>
  \<^verbatim>\<open>getJsonAttributes\<close>: the declared list, or else the schema properties of type object
  or array, or else none.
\<close>

definition getJsonAttributes :: "model_class \<Rightarrow> string list" where
  "getJsonAttributes C =
     (case jsonAttributes C of
        Some attrs \<Rightarrow> attrs
      | None \<Rightarrow>
          (case jsonSchema C of
             None \<Rightarrow> []
           | Some schema \<Rightarrow>
               map fst (filter (\<lambda>kp. ptype (snd kp) = Some TObject \<or> ptype (snd kp) = Some TArray)
                          (properties schema))))"

text \<open>\<^verbatim>\<open>$$omitRelations\<close>: the JSON without the keys that name a relation.\<close>

definition getRelations :: "model_class \<Rightarrow> (string \<times> relation) list" where
  "getRelations C = relationMappings C"

definition SS_omitRelations :: "model_class \<Rightarrow> fields \<Rightarrow> fields" where
  "SS_omitRelations C json =
     (let omitAttributes = map fst (getRelations C)
      in if length omitAttributes \<noteq> 0
         then (\<lambda>k. if k \<in> set omitAttributes then None else json k)
         else json)"

text \<open>
  \<^verbatim>\<open>$$omitNonColumns\<close>: with a schema only the schema's properties are picked, without
  one the relations are omitted.
\<close>

definition SS_omitNonColumns :: "model_class \<Rightarrow> fields \<Rightarrow> fields" where
  "SS_omitNonColumns C json =
     (case jsonSchema C of
        Some schema \<Rightarrow> (\<lambda>k. if k \<in> set (map fst (properties schema)) then json k else None)
      | None \<Rightarrow> SS_omitRelations C json)"

fun isObject :: "jsval \<Rightarrow> bool" where
  "isObject (JArr vs) = True"
| "isObject (JObj kvs) = True"
| "isObject v = False"

text \<open>
  \<^verbatim>\<open>MoronModel.prototype.$formatDatabaseJson\<close>: every JSON attribute whose value is an
  object is replaced by its JSON text, then the non-columns are omitted.
\<close>

definition S_formatDatabaseJson :: "model_class \<Rightarrow> fields \<Rightarrow> fields" where
  "S_formatDatabaseJson C json =
     SS_omitNonColumns C
       (foldl (\<lambda>js attr. case js attr of
                            Some v \<Rightarrow> (if isObject v then js(attr \<mapsto> JJson v) else js)
                          | None \<Rightarrow> js)
              json (getJsonAttributes C))"

text \<open>
  \<^verbatim>\<open>$toDatabaseJson()\<close> is \<^verbatim>\<open>$$toJson(true)\<close>: the JSON properties of the instance, copied,
  then formatted for the database.
\<close>

definition S_toDatabaseJson :: "model_class \<Rightarrow> object \<Rightarrow> fields" where
  "S_toDatabaseJson C ob = S_formatDatabaseJson C (own_json (props ob))"

text \<open>
  \<^verbatim>\<open>getIdProperty\<close> asks \<^verbatim>\<open>columnNameToPropertyName\<close> for the property that a row with only
  the id column becomes. With the parsing of this class that is the column's own name;
  \<^verbatim>\<open>JSON.parse\<close> of the probe value throws when the id column is a JSON attribute. A column
  that is no JSON property yields no property, and the empty name is falsy: both give
  \<^verbatim>\<open>null\<close>, on which \<^verbatim>\<open>getIdProperty\<close> throws.
\<close>

definition columnNameToPropertyName :: "model_class \<Rightarrow> string \<Rightarrow> error + string option" where
  "columnNameToPropertyName C columnName =
     (if columnName \<in> set (getJsonAttributes C) then Inl SyntaxError
      else if hasOwnJsonProperty columnName \<and> columnName \<noteq> [] then Inr (Some columnName)
      else Inr None)"

definition getIdProperty :: "model_class \<Rightarrow> error + string" where
  "getIdProperty C =
     (case columnNameToPropertyName C (idColumn C) of
        Inl e \<Rightarrow> Inl e
      | Inr (Some p) \<Rightarrow> Inr p
      | Inr None \<Rightarrow>
          Inl (Error (cname C @ ''.$parseDatabaseJson probably changes the value of the id column '' @
                      [CHR 0x60] @ idColumn C @ [CHR 0x60] @ '' which is a no-no.'')))"

definition getFullIdColumn :: "model_class \<Rightarrow> string" where
  "getFullIdColumn C = tableName C @ ''.'' @ idColumn C"

text \<open>\<^verbatim>\<open>model.$id(value)\<close> sets the id property; \<^verbatim>\<open>model.$id()\<close> reads it.\<close>

definition S_id_set :: "heap \<Rightarrow> model_class \<Rightarrow> addr \<Rightarrow> jsval \<Rightarrow> error + heap" where
  "S_id_set h C a v =
     (case getIdProperty C of Inl e \<Rightarrow> Inl e | Inr p \<Rightarrow> Inr (set_prop h a p v))"

definition S_id :: "heap \<Rightarrow> model_class \<Rightarrow> addr \<Rightarrow> error + jsval" where
  "S_id h C a =
     (case getIdProperty C of
        Inl e \<Rightarrow> Inl e
      | Inr p \<Rightarrow> Inr (case props (h ! a) p of None \<Rightarrow> JUndefined | Some v \<Rightarrow> v))"

section \<open>MoronModel: ensureModel and ensureModelArray\<close>

text \<open>
  \<^verbatim>\<open>ensureModel(model, options)\<close>: \<^verbatim>\<open>null\<close> for a falsy value, the instance itself when it
  is of this class, an error for an instance of another model class, and
  \<^verbatim>\<open>fromJson\<close> of a plain object.
\<close>

definition ensureModel :: "heap \<Rightarrow> model_class \<Rightarrow> item \<Rightarrow> bool \<Rightarrow> error + (heap \<times> addr option)" where
  "ensureModel h C model patch =
     (case model of
        Falsy \<Rightarrow> Inr (h, None)
      | Ref a \<Rightarrow>
          (case ctor (h ! a) of
             Some n \<Rightarrow>
               (if n = cname C then Inr (h, Some a)
                else Inl (Error ''model is already an instance of another MoronModel''))
           | None \<Rightarrow>
               (case fromJson h C (props (h ! a)) patch of
                  Inl e \<Rightarrow> Inl e
                | Inr (h', a') \<Rightarrow> Inr (h', Some a'))))"

definition ensureArray :: "arg \<Rightarrow> item list" where
  "ensureArray obj = (case obj of Many xs \<Rightarrow> xs | One x \<Rightarrow> [x])"

fun map_ensureModel :: "heap \<Rightarrow> model_class \<Rightarrow> item list \<Rightarrow> bool \<Rightarrow> error + (heap \<times> addr option list)" where
  "map_ensureModel h C [] patch = Inr (h, [])"
| "map_ensureModel h C (x # xs) patch =
     (case ensureModel h C x patch of
        Inl e \<Rightarrow> Inl e
      | Inr (h1, m) \<Rightarrow>
          (case map_ensureModel h1 C xs patch of
             Inl e \<Rightarrow> Inl e
           | Inr (h2, ms) \<Rightarrow> Inr (h2, m # ms)))"

text \<open>
  \<^verbatim>\<open>ensureModelArray(models, options)\<close>: \<^verbatim>\<open>null\<close> for a falsy argument, else
  \<^verbatim>\<open>ensureModel\<close> of every element of \<^verbatim>\<open>ensureArray(models)\<close>, left to right.
\<close>

definition ensureModelArray :: "heap \<Rightarrow> model_class \<Rightarrow> arg \<Rightarrow> bool \<Rightarrow> error + (heap \<times> addr option list option)" where
  "ensureModelArray h C models patch =
     (case models of
        One Falsy \<Rightarrow> Inr (h, None)
      | _ \<Rightarrow>
          (case map_ensureModel h C (ensureArray models) patch of
             Inl e \<Rightarrow> Inl e
           | Inr (h', ms) \<Rightarrow> Inr (h', Some ms)))"


section \<open>The statement builder\<close>

text \<open>
  Modelled from the spec: the statement builder (\<^verbatim>\<open>MoronQueryBuilder\<close> and the SQL builder
  it wraps are not among the sources). It accumulates predicates independent of the
  operation kind, carries one operation with its payload, and names the column to
  return. The predicates are kept as the flat list of clauses the statement text shows,
  each with the connective that joins it to the clauses before it. \<open>InBridge c t s o ks\<close>
  is the predicate \<^verbatim>\<open>c in (select s from t where o in ks)\<close> on a bridge table \<open>t\<close>.
\<close>

datatype connective = CAnd | COr

datatype predicate =
    Cmp string string jsval
  | In string "jsval list"
  | NotNull string
  | InBridge string string string string "jsval list"

datatype operation =
    Find
  | Insert "fields list"
  | Update fields
  | Delete

record builder =
  table :: string
  operation :: operation
  wheres :: "(connective \<times> predicate) list"
  joins :: "(string \<times> string \<times> string) list"
  selects :: "string list"
  returning :: "string option"

definition b_where :: "builder \<Rightarrow> string \<Rightarrow> jsval \<Rightarrow> builder" where
  "b_where b col v = b\<lparr>wheres := wheres b @ [(CAnd, Cmp col ''='' v)]\<rparr>"

definition b_whereIn :: "builder \<Rightarrow> string \<Rightarrow> jsval list \<Rightarrow> builder" where
  "b_whereIn b col vs = b\<lparr>wheres := wheres b @ [(CAnd, In col vs)]\<rparr>"

section \<open>MoronModel.$$insert\<close>

text \<open>\<^verbatim>\<open>MoronModel.generateId\<close> of the base class returns \<^verbatim>\<open>null\<close>.\<close>

definition generateId :: "model_class \<Rightarrow> jsval" where
  "generateId C = JNull"

text \<open>
  The \<^verbatim>\<open>_.map\<close> of \<^verbatim>\<open>$$insert\<close>: each model gets a generated id when there is one and is
  converted to its database JSON. A \<^verbatim>\<open>null\<close> among the models is a TypeError.
\<close>

fun insert_json :: "heap \<Rightarrow> model_class \<Rightarrow> addr option list \<Rightarrow> error + (heap \<times> fields list)" where
  "insert_json h C [] = Inr (h, [])"
| "insert_json h C (None # ms) = Inl TypeError"
| "insert_json h C (Some a # ms) =
     (case (if generateId C \<noteq> JNull then S_id_set h C a (generateId C) else Inr h) of
        Inl e \<Rightarrow> Inl e
      | Inr h1 \<Rightarrow>
          (case insert_json h1 C ms of
             Inl e \<Rightarrow> Inl e
           | Inr (h2, js) \<Rightarrow> Inr (h2, S_toDatabaseJson C (h1 ! a) # js)))"

text \<open>
  \<^verbatim>\<open>$$insert(builder, $models)\<close> up to the registration of the callback: the models
  (\<^verbatim>\<open>null\<close> for a falsy argument, over which \<^verbatim>\<open>_.map\<close> yields no rows), the insert
  statement and the returned column.
\<close>

definition SS_insert ::
  "heap \<Rightarrow> model_class \<Rightarrow> builder \<Rightarrow> arg \<Rightarrow> error + (heap \<times> builder \<times> addr option list option)" where
  "SS_insert h C b models0 =
     (case ensureModelArray h C models0 False of
        Inl e \<Rightarrow> Inl e
      | Inr (h1, models) \<Rightarrow>
          (case insert_json h1 C (case models of None \<Rightarrow> [] | Some ms \<Rightarrow> ms) of
             Inl e \<Rightarrow> Inl e
           | Inr (h2, json) \<Rightarrow>
               Inr (h2, b\<lparr>operation := Insert json, returning := Some (getFullIdColumn C)\<rparr>, models)))"

text \<open>
  JavaScript numbers are IEEE doubles: the integers up to \<open>2 ^ 53\<close> in absolute value are
  all numbers, larger ones only when they are a multiple of the spacing \<open>ulp\<close> of their
  magnitude, and the result of an operation is the exact result rounded to the nearest
  number, a tie going to the one with the even significand. \<open>round_double n\<close> is the
  number that the exact integer result \<open>n\<close> rounds to, and \<open>js_dec x\<close> is the value of
  \<^verbatim>\<open>x\<close> after \<^verbatim>\<open>x--\<close>. (A decrement never leaves the finite range, so infinities do not
  arise.)
\<close>

function ulp :: "nat \<Rightarrow> nat" where
  "ulp a = (if a < 2 ^ 53 then 1 else 2 * ulp (a div 2))"
  by pat_completeness auto
termination
  by (relation "measure id") auto

declare ulp.simps [simp del]

definition round_double :: "int \<Rightarrow> int" where
  "round_double n =
     (let a = nat \<bar>n\<bar>; u = ulp a; q = a div u; r = a mod u;
          q' = (if 2 * r < u then q
                else if u < 2 * r then q + 1
                else if even q then q else q + 1)
      in sgn n * int (q' * u))"

definition js_dec :: "int \<Rightarrow> int" where
  "js_dec x = round_double (x - 1)"

text \<open>
  The loop \<^verbatim>\<open>for (i = models.length - 1; i >= 0; --i) ids.unshift(lastId--)\<close>, by the
  number of iterations left.
\<close>

fun unshift_ids :: "nat \<Rightarrow> int \<Rightarrow> int list \<Rightarrow> int list" where
  "unshift_ids 0 lastId ids = ids"
| "unshift_ids (Suc n) lastId ids = unshift_ids n (js_dec lastId) (lastId # ids)"

definition ids_at :: "int list \<Rightarrow> nat \<Rightarrow> jsval" where
  "ids_at ids idx = (if idx < length ids then JNum (ids ! idx) else JUndefined)"

text \<open>\<^verbatim>\<open>_.each(models, function (model, idx) { model.$id(ids[idx]); })\<close>, from index \<open>idx\<close> on.\<close>

fun each_set_id :: "heap \<Rightarrow> model_class \<Rightarrow> addr option list \<Rightarrow> nat \<Rightarrow> int list \<Rightarrow> error + heap" where
  "each_set_id h C [] idx ids = Inr h"
| "each_set_id h C (None # ms) idx ids = Inl TypeError"
| "each_set_id h C (Some a # ms) idx ids =
     (case S_id_set h C a (ids_at ids idx) of
        Inl e \<Rightarrow> Inl e
      | Inr h1 \<Rightarrow> each_set_id h1 C ms (Suc idx) ids)"

datatype retval = RetArray "addr option list" | RetOne "addr option" | RetUndefined

definition isArray :: "arg \<Rightarrow> bool" where
  "isArray x = (case x of Many xs \<Rightarrow> True | One y \<Rightarrow> False)"

text \<open>
  The callback that \<^verbatim>\<open>$$insert\<close> registers with \<^verbatim>\<open>runAfterModelCreatePushFront\<close>, applied
  to the ids the database returned. \<open>models\<close> and \<open>models0\<close> are the variables
  \<^verbatim>\<open>models\<close> and \<^verbatim>\<open>$models\<close> of the enclosing call. When \<^verbatim>\<open>models\<close> is \<^verbatim>\<open>null\<close> the
  callback reads a property of \<^verbatim>\<open>null\<close> on each of its paths.
\<close>

definition insert_callback ::
  "heap \<Rightarrow> model_class \<Rightarrow> addr option list option \<Rightarrow> arg \<Rightarrow> int list \<Rightarrow> error + (heap \<times> retval)" where
  "insert_callback h C models models0 ids0 =
     (case models of
        None \<Rightarrow> Inl TypeError
      | Some ms \<Rightarrow>
          (let ids = (if length ids0 = 1 \<and> length ms > 1
                      then unshift_ids (length ms) (ids0 ! 0) []
                      else ids0)
           in case each_set_id h C ms 0 ids of
                Inl e \<Rightarrow> Inl e
              | Inr h1 \<Rightarrow>
                  Inr (h1, if isArray models0 then RetArray ms
                           else (case ms of [] \<Rightarrow> RetUndefined | m # _ \<Rightarrow> RetOne m))))"


section \<open>MoronModel.$$update, $$patch and $$delete\<close>

text \<open>
  \<^verbatim>\<open>$$update(builder, $update)\<close>: nothing for a falsy update. Else the update is made a
  model (validated as a whole record), cloned, the id property is deleted from the clone,
  and the clone's database JSON becomes the payload of the update statement. The
  callback registered with \<^verbatim>\<open>runAfterModelCreatePushFront\<close> returns \<^verbatim>\<open>$update\<close>, the third
  component here.
\<close>

definition SS_update ::
  "heap \<Rightarrow> model_class \<Rightarrow> builder \<Rightarrow> item \<Rightarrow> error + (heap \<times> builder \<times> addr option)" where
  "SS_update h C b update0 =
     (case update0 of
        Falsy \<Rightarrow> Inr (h, b, None)
      | Ref x \<Rightarrow>
          (case ensureModel h C update0 False of
             Inl e \<Rightarrow> Inl e
           | Inr (h1, None) \<Rightarrow> Inl TypeError
           | Inr (h1, Some m) \<Rightarrow>
               (case S_clone h1 m of
                  (h2, update) \<Rightarrow>
                    (case getIdProperty C of
                       Inl e \<Rightarrow> Inl e
                     | Inr p \<Rightarrow>
                         (let h3 = delete_prop h2 update p
                          in Inr (h3, b\<lparr>operation := Update (S_toDatabaseJson C (h3 ! update))\<rparr>,
                                  Some m))))))"

text \<open>
  \<^verbatim>\<open>$$patch(builder, $patch)\<close>: as \<^verbatim>\<open>$$update\<close>, with the patch made a model under
  \<^verbatim>\<open>{patch: true}\<close>.
\<close>

definition SS_patch ::
  "heap \<Rightarrow> model_class \<Rightarrow> builder \<Rightarrow> item \<Rightarrow> error + (heap \<times> builder \<times> addr option)" where
  "SS_patch h C b patch0 =
     (case patch0 of
        Falsy \<Rightarrow> Inr (h, b, None)
      | Ref x \<Rightarrow>
          (case ensureModel h C patch0 True of
             Inl e \<Rightarrow> Inl e
           | Inr (h1, None) \<Rightarrow> Inl TypeError
           | Inr (h1, Some m) \<Rightarrow>
               (case S_clone h1 m of
                  (h2, patch) \<Rightarrow>
                    (case getIdProperty C of
                       Inl e \<Rightarrow> Inl e
                     | Inr p \<Rightarrow>
                         (let h3 = delete_prop h2 patch p
                          in Inr (h3, b\<lparr>operation := Update (S_toDatabaseJson C (h3 ! patch))\<rparr>,
                                  Some m))))))"

text \<open>\<^verbatim>\<open>$$delete(builder)\<close>: a delete statement (its callback returns \<^verbatim>\<open>{}\<close>).\<close>

definition SS_delete :: "builder \<Rightarrow> builder" where
  "SS_delete b = b\<lparr>operation := Delete\<rparr>"

section \<open>MoronModel.getRelation\<close>

text \<open>
  \<^verbatim>\<open>getRelation(name)\<close>: the relation of that name, or the error
  \<^verbatim>\<open>model class 'C' doesn't have relation 'name'\<close>.
\<close>

definition unknown_relation :: "model_class \<Rightarrow> string \<Rightarrow> error" where
  "unknown_relation C name =
     Error (''model class '' @ [CHR 0x27] @ cname C @ [CHR 0x27] @ '' doesn'' @ [CHR 0x27] @
            ''t have relation '' @ [CHR 0x27] @ name @ [CHR 0x27])"

definition getRelation :: "model_class \<Rightarrow> string \<Rightarrow> error + relation" where
  "getRelation C name =
     (case map_of (getRelations C) name of
        None \<Rightarrow> Inl (unknown_relation C name)
      | Some relation \<Rightarrow> Inr relation)"

section \<open>Queries without a relation: MoronModel.query and $query\<close>

text \<open>
  Modelled from the spec: the builder is told one operation kind with its argument and
  runs the hook registered for that kind before execution (the dispatch is in
  \<^verbatim>\<open>MoronQueryBuilder\<close>, which is not among the sources). A request is the operation kind
  with its argument; the hooks below are those of the source.
\<close>

datatype ids = OneId jsval | ManyIds "jsval list"

datatype request =
    ReqFind
  | ReqInsert arg
  | ReqUpdate item
  | ReqPatch item
  | ReqDelete
  | ReqRelate ids
  | ReqUnrelate

definition drop_result :: "error + (heap \<times> builder \<times> 'a) \<Rightarrow> error + (heap \<times> builder)" where
  "drop_result x = (case x of Inl e \<Rightarrow> Inl e | Inr (h, b, r) \<Rightarrow> Inr (h, b))"

text \<open>
  \<^verbatim>\<open>MoronModel.query()\<close>: the hooks of a class-level query. No find hook is registered,
  so a find leaves the builder as it is.
\<close>

definition query :: "heap \<Rightarrow> model_class \<Rightarrow> request \<Rightarrow> builder \<Rightarrow> error + (heap \<times> builder)" where
  "query h C req b =
     (case req of
        ReqFind \<Rightarrow> Inr (h, b)
      | ReqInsert models \<Rightarrow> drop_result (SS_insert h C b models)
      | ReqUpdate update \<Rightarrow> drop_result (SS_update h C b update)
      | ReqPatch patch \<Rightarrow> drop_result (SS_patch h C b patch)
      | ReqDelete \<Rightarrow> Inr (h, SS_delete b)
      | ReqRelate ids \<Rightarrow> Inl (Error ''relate makes no sense in this context'')
      | ReqUnrelate \<Rightarrow> Inl (Error ''relate makes no sense in this context''))"

text \<open>
  \<^verbatim>\<open>model.$query()\<close>: the hooks of an instance-level query on the instance \<open>self\<close>. Find,
  update, patch and delete add the predicate on the instance's id; update and patch
  take the instance itself when no argument is given.
\<close>

definition where_id :: "heap \<Rightarrow> model_class \<Rightarrow> addr \<Rightarrow> builder \<Rightarrow> error + (heap \<times> builder)" where
  "where_id h C self b =
     (case S_id h C self of
        Inl e \<Rightarrow> Inl e
      | Inr v \<Rightarrow> Inr (h, b_where b (getFullIdColumn C) v))"

definition S_query :: "heap \<Rightarrow> model_class \<Rightarrow> addr \<Rightarrow> request \<Rightarrow> builder \<Rightarrow> error + (heap \<times> builder)" where
  "S_query h C self req b =
     (case req of
        ReqFind \<Rightarrow> where_id h C self b
      | ReqInsert models \<Rightarrow> drop_result (SS_insert h C b (One (Ref self)))
      | ReqUpdate update \<Rightarrow>
          (case SS_update h C b (case update of Falsy \<Rightarrow> Ref self | Ref x \<Rightarrow> update) of
             Inl e \<Rightarrow> Inl e
           | Inr (h1, b1, r) \<Rightarrow> where_id h1 C self b1)
      | ReqPatch patch \<Rightarrow>
          (case SS_patch h C b (case patch of Falsy \<Rightarrow> Ref self | Ref x \<Rightarrow> patch) of
             Inl e \<Rightarrow> Inl e
           | Inr (h1, b1, r) \<Rightarrow> where_id h1 C self b1)
      | ReqDelete \<Rightarrow> where_id h C self (SS_delete b)
      | ReqRelate ids \<Rightarrow> Inl (Error ''relate makes no sense in this context'')
      | ReqUnrelate \<Rightarrow> Inl (Error ''relate makes no sense in this context''))"

section \<open>Relations: the statements of the seven operations\<close>

text \<open>
  Modelled from the spec: the deduplication of the owner keys in stable order (the
  relation classes are not among the sources), as \<^verbatim>\<open>_.uniq\<close> does it: the first
  occurrence of every element, in the order of the list.
\<close>

fun uniq :: "'a list \<Rightarrow> 'a list" where
  "uniq [] = []"
| "uniq (x # xs) = x # uniq (filter (\<lambda>y. y \<noteq> x) xs)"

definition bridgeOwnerCol :: "relation \<Rightarrow> string" where
  "bridgeOwnerCol rel = joinTable rel @ ''.'' @ joinTableOwnerCol rel"

definition bridgeRelatedCol :: "relation \<Rightarrow> string" where
  "bridgeRelatedCol rel = joinTable rel @ ''.'' @ joinTableRelatedCol rel"

text \<open>
  Modelled from the spec: \<open>find(builder, owners)\<close> of a relation (the relation classes are
  not among the sources), on the linking keys of the owners. A has-one or has-many
  relation adds \<^verbatim>\<open>related.relatedProp IN (ownerIds)\<close>; a many-to-many relation joins the
  bridge table, selects the bridge's owner column alongside the related rows and adds
  the \<^verbatim>\<open>IN\<close> on the bridge's owner column. The keys are deduplicated in stable order.
\<close>

definition relation_find :: "relation \<Rightarrow> builder \<Rightarrow> jsval list \<Rightarrow> builder" where
  "relation_find rel b ownerKeys =
     (case kind rel of
        ManyToManyRelation \<Rightarrow>
          b_whereIn
            (b\<lparr>joins := joins b @ [(joinTable rel, bridgeRelatedCol rel, joinTo rel)],
               selects := selects b @ [bridgeOwnerCol rel]\<rparr>)
            (bridgeOwnerCol rel) (uniq ownerKeys)
      | _ \<Rightarrow> b_whereIn b (joinTo rel) (uniq ownerKeys))"










definition relation_relate_result :: "ids \<Rightarrow> jsval list \<Rightarrow> ids" where
  "relation_relate_result ids0 db_result = ids0"

text \<open>
  Modelled from the spec: \<open>insert(builder, owner, models)\<close> through a relation. The input
  is made models of the related class; a has-one or has-many relation stamps the
  foreign key property with the owner's key onto every record; the insert is
  \<^verbatim>\<open>$$insert\<close> of the related class on the models, in the shape passed in. A many-to-many
  relation inserts the related rows and then, when their ids are known, the bridge rows
  that link each new id to the owner.
\<close>

fun stamp :: "heap \<Rightarrow> string \<Rightarrow> jsval \<Rightarrow> addr option list \<Rightarrow> error + heap" where
  "stamp h p v [] = Inr h"
| "stamp h p v (None # ms) = Inl TypeError"
| "stamp h p v (Some a # ms) = stamp (set_prop h a p v) p v ms"

definition item_of :: "addr option \<Rightarrow> item" where
  "item_of m = (case m of None \<Rightarrow> Falsy | Some a \<Rightarrow> Ref a)"

definition same_shape :: "arg \<Rightarrow> addr option list option \<Rightarrow> arg" where
  "same_shape models0 models =
     (case models of
        None \<Rightarrow> One Falsy
      | Some ms \<Rightarrow>
          (case models0 of
             Many xs \<Rightarrow> Many (map item_of ms)
           | One x \<Rightarrow> (case ms of [] \<Rightarrow> One Falsy | m # _ \<Rightarrow> One (item_of m))))"

definition relation_insert ::
  "heap \<Rightarrow> model_class \<Rightarrow> relation \<Rightarrow> builder \<Rightarrow> jsval \<Rightarrow> arg \<Rightarrow>
     error + (heap \<times> builder \<times> addr option list option \<times> arg)" where
  "relation_insert h R rel b ownerKey models0 =
     (case ensureModelArray h R models0 False of
        Inl e \<Rightarrow> Inl e
      | Inr (h1, models) \<Rightarrow>
          (case (case kind rel of
                   ManyToManyRelation \<Rightarrow> Inr h1
                 | _ \<Rightarrow> stamp h1 (relatedProp rel) ownerKey
                          (case models of None \<Rightarrow> [] | Some ms \<Rightarrow> ms)) of
             Inl e \<Rightarrow> Inl e
           | Inr h2 \<Rightarrow>
               (case SS_insert h2 R b (same_shape models0 models) of
                  Inl e \<Rightarrow> Inl e
                | Inr (h3, b3, models3) \<Rightarrow> Inr (h3, b3, models3, same_shape models0 models))))"

definition bridge_rows :: "heap \<Rightarrow> model_class \<Rightarrow> relation \<Rightarrow> jsval \<Rightarrow> addr option list \<Rightarrow> fields list" where
  "bridge_rows h R rel ownerKey ms =
     map (\<lambda>m. [joinTableOwnerCol rel \<mapsto> ownerKey,
                joinTableRelatedCol rel \<mapsto>
                  (case m of
                     None \<Rightarrow> JUndefined
                   | Some a \<Rightarrow> (case props (h ! a) (idColumn R) of None \<Rightarrow> JUndefined | Some v \<Rightarrow> v))])
         ms"

text \<open>
  Modelled from the spec: the result of an insert through a relation (the relation
  classes are not among the sources), once the database has returned \<open>ids\<close>: the value that the
  callback of \<^verbatim>\<open>$$insert\<close> returns, which is also assigned to the owner's association
  field, and the statements that follow (the bridge insert of a many-to-many relation).
\<close>

definition relation_insert_callback ::
  "heap \<Rightarrow> model_class \<Rightarrow> relation \<Rightarrow> jsval \<Rightarrow> addr option list option \<Rightarrow> arg \<Rightarrow> int list \<Rightarrow>
     error + (heap \<times> retval \<times> builder list)" where
  "relation_insert_callback h R rel ownerKey models models1 ids =
     (case insert_callback h R models models1 ids of
        Inl e \<Rightarrow> Inl e
      | Inr (h1, r) \<Rightarrow>
          Inr (h1, r,
               case kind rel of
                 ManyToManyRelation \<Rightarrow>
                   [\<lparr>table = joinTable rel,
                     operation = Insert (bridge_rows h1 R rel ownerKey
                                           (case models of None \<Rightarrow> [] | Some ms \<Rightarrow> ms)),
                     wheres = [], joins = [], selects = [], returning = None\<rparr>]
               | _ \<Rightarrow> []))"

definition relation_insert_run ::
  "heap \<Rightarrow> model_class \<Rightarrow> relation \<Rightarrow> builder \<Rightarrow> jsval \<Rightarrow> arg \<Rightarrow> int list \<Rightarrow>
     error + (heap \<times> retval \<times> builder list)" where
  "relation_insert_run h R rel b ownerKey models0 ids =
     (case relation_insert h R rel b ownerKey models0 of
        Inl e \<Rightarrow> Inl e
      | Inr (h1, b1, models, models1) \<Rightarrow> relation_insert_callback h1 R rel ownerKey models models1 ids)"

text \<open>The shape of a result: an array or a scalar.\<close>

definition ret_is_array :: "retval \<Rightarrow> bool" where
  "ret_is_array r = (case r of RetArray ms \<Rightarrow> True | RetOne m \<Rightarrow> False | RetUndefined \<Rightarrow> False)"

definition ids_is_array :: "ids \<Rightarrow> bool" where
  "ids_is_array x = (case x of ManyIds vs \<Rightarrow> True | OneId v \<Rightarrow> False)"

section \<open>MoronModel.prototype.$relatedQuery\<close>



section \<open>Eager fetching\<close>

text \<open>
  Modelled from the spec: the data of a fetch (the fetcher, the expression class and the
  relation classes are not among the sources). A row is the list of its columns. A model
  instance, as the fetcher sees it, is a record of named fields with the association
  fields it holds: null, one related instance, or an array of them. The fetcher's
  mutation in place is the returned, populated instance.
\<close>

type_synonym row = "(string \<times> jsval) list"

datatype model = Model (mprops: row) (massoc: "(string \<times> assoc) list")
  and assoc = ANull | AOne model | AMany "model list"

definition field :: "row \<Rightarrow> string \<Rightarrow> jsval" where
  "field r k = (case map_of r k of None \<Rightarrow> JUndefined | Some v \<Rightarrow> v)"

definition assign :: "string \<Rightarrow> assoc \<Rightarrow> model \<Rightarrow> model" where
  "assign k v m = Model (mprops m) (AList.update k v (massoc m))"

definition assoc_of :: "model \<Rightarrow> string \<Rightarrow> assoc option" where
  "assoc_of m k = map_of (massoc m) k"

text \<open>
  Modelled from the spec: the relation expression node (\<^verbatim>\<open>MoronRelationExpression\<close> is
  not among the sources): a name (none for the virtual root), the children by name, and
  the two flags.
\<close>

datatype expr = Node (ename: "string option") (children: "(string \<times> expr) list")
  (allRelations: bool) (recursive: bool)

text \<open>
  Modelled from the spec: the linking key of an owner is its \<open>ownerProp\<close>; the linking
  key of a related row is its \<open>relatedProp\<close>, or for a many-to-many relation the bridge's
  owner column that the find selects alongside the row.
\<close>

definition owner_link :: "relation \<Rightarrow> model \<Rightarrow> jsval" where
  "owner_link rel m = field (mprops m) (ownerProp rel)"

definition related_link :: "relation \<Rightarrow> model \<Rightarrow> jsval" where
  "related_link rel m =
     (case kind rel of
        ManyToManyRelation \<Rightarrow> field (mprops m) (joinTableOwnerCol rel)
      | _ \<Rightarrow> field (mprops m) (relatedProp rel))"

text \<open>
  Modelled from the spec: the post-fetch step of a find (part of the relation classes,
  which are not among the sources). The related rows are grouped by their linking key, in
  query order, and every owner's association field is set from the group of its own
  key: the group as an array for has-many and many-to-many (empty when there is none),
  one instance of the group for has-one (null when there is none).
\<close>

definition groupBy :: "('a \<Rightarrow> 'k) \<Rightarrow> 'a list \<Rightarrow> 'k \<Rightarrow> 'a list" where
  "groupBy key rs = foldl (\<lambda>g r. g(key r := g (key r) @ [r])) (\<lambda>k. []) rs"

definition association :: "relation \<Rightarrow> model list \<Rightarrow> assoc" where
  "association rel grp =
     (case kind rel of
        HasOneRelation \<Rightarrow> (if grp = [] then ANull else AOne (last grp))
      | _ \<Rightarrow> AMany grp)"

definition partition_onto :: "relation \<Rightarrow> model list \<Rightarrow> model list \<Rightarrow> model list" where
  "partition_onto rel related owners =
     (let byKey = groupBy (related_link rel) related
      in map (\<lambda>owner. assign (rname rel) (association rel (byKey (owner_link rel owner))) owner) owners)"

definition new_builder :: "model_class \<Rightarrow> builder" where
  "new_builder R = \<lparr>table = tableName R, operation = Find, wheres = [], joins = [],
     selects = [], returning = None\<rparr>"

text \<open>
  Modelled from the spec: a find through a relation for a batch of owners, on a builder
  that holds the caller's predicates, as the builder runs it (\<^verbatim>\<open>MoronQueryBuilder\<close> is not
  among the sources): one statement for the whole batch, executed by the SQL layer \<open>exec\<close>; the
  rows become instances, the owners are populated, and the flat result is returned as
  the query gave it. The third component lists the statements executed.
\<close>

definition find_run ::
  "(builder \<Rightarrow> row list) \<Rightarrow> relation \<Rightarrow> builder \<Rightarrow> model list \<Rightarrow> model list \<times> model list \<times> builder list" where
  "find_run exec rel b owners =
     (let q = relation_find rel b (map (owner_link rel) owners);
          related = map (\<lambda>r. Model r []) (exec q)
      in (partition_onto rel related owners, related, [q]))"

text \<open>
  Modelled from the spec: step 1 of the fetcher (\<^verbatim>\<open>MoronEagerFetcher\<close> is not among the
  sources), the relation names to process at a node; and the child
  expression of a relation (the node itself if recursive, a synthetic all-relations node
  if wildcard, the explicit child otherwise).
\<close>

definition relation_names :: "model_class \<Rightarrow> expr \<Rightarrow> string list" where
  "relation_names C node =
     (if allRelations node then map fst (getRelations C)
      else if recursive node then (case ename node of None \<Rightarrow> [] | Some n \<Rightarrow> [n])
      else map fst (children node))"

definition child_expr :: "expr \<Rightarrow> string \<Rightarrow> expr" where
  "child_expr node n =
     (if allRelations node then Node (Some n) [] True False
      else if recursive node then node
      else (case map_of (children node) n of
              None \<Rightarrow> Node (Some n) [] False False
            | Some c \<Rightarrow> c))"

text \<open>
  Modelled from the spec: the fetcher, per tree level (steps 2 to 4; \<^verbatim>\<open>MoronEagerFetcher\<close>
  is not among the sources): stop when there are no owners or no
  relation names; else, for each name in turn, look the relation up on the model class
  (an unknown name is the lookup error), run its find once for the entire batch, recurse
  into the child expression with the fetched instances as the new owners and the
  related class as the new model class, and assign each owner's subset (instances are
  values here, so the subset is assigned once its instances are populated). The recursion
  is bounded only by the data, so the model counts levels down from \<open>fuel\<close>: \<open>None\<close> is
  a fetch that has not returned within that many levels. The result lists the populated
  owners and the statements executed, in order.
\<close>

fun fetch ::
  "nat \<Rightarrow> (builder \<Rightarrow> row list) \<Rightarrow> (string \<Rightarrow> model_class) \<Rightarrow> model_class \<Rightarrow> expr \<Rightarrow> model list \<Rightarrow>
     (error + model list \<times> builder list) option"
and fetch_relations ::
  "nat \<Rightarrow> (builder \<Rightarrow> row list) \<Rightarrow> (string \<Rightarrow> model_class) \<Rightarrow> model_class \<Rightarrow> expr \<Rightarrow> string list \<Rightarrow>
     model list \<Rightarrow> (error + model list \<times> builder list) option"
where
  "fetch 0 exec classes C node owners = None"
| "fetch (Suc fuel) exec classes C node owners =
     (if owners = [] \<or> relation_names C node = [] then Some (Inr (owners, []))
      else fetch_relations fuel exec classes C node (relation_names C node) owners)"
| "fetch_relations fuel exec classes C node [] owners = Some (Inr (owners, []))"
| "fetch_relations fuel exec classes C node (n # ns) owners =
     (case getRelation C n of
        Inl e \<Rightarrow> Some (Inl e)
      | Inr rel \<Rightarrow>
          (let R = classes (relatedModelClass rel);
               q = relation_find rel (new_builder R) (map (owner_link rel) owners);
               related = map (\<lambda>r. Model r []) (exec q)
           in case fetch fuel exec classes R (child_expr node n) related of
                None \<Rightarrow> None
              | Some (Inl e) \<Rightarrow> Some (Inl e)
              | Some (Inr (related', qs)) \<Rightarrow>
                  (case fetch_relations fuel exec classes C node ns
                          (partition_onto rel related' owners) of
                     None \<Rightarrow> None
                   | Some (Inl e) \<Rightarrow> Some (Inl e)
                   | Some (Inr (owners', qs')) \<Rightarrow> Some (Inr (owners', q # qs @ qs')))))"

text \<open>
  \<^verbatim>\<open>MoronModel.loadRelated($models, expression)\<close> with a parsed expression (an instance of
  the expression class, which the source passes on unparsed) and model instances: the
  fetcher, as modelled above, runs on the models as an array, and the result is the
  array or its first element, by the shape of the argument.
\<close>

datatype models_arg = OneModel model | ManyModels "model list"

datatype loaded = LoadedOne model | LoadedMany "model list" | LoadedUndefined

definition loadRelated ::
  "nat \<Rightarrow> (builder \<Rightarrow> row list) \<Rightarrow> (string \<Rightarrow> model_class) \<Rightarrow> model_class \<Rightarrow> models_arg \<Rightarrow> expr \<Rightarrow>
     (error + loaded \<times> builder list) option" where
  "loadRelated fuel exec classes C models0 expression =
     (case fetch fuel exec classes C expression
             (case models0 of OneModel m \<Rightarrow> [m] | ManyModels ms \<Rightarrow> ms) of
        None \<Rightarrow> None
      | Some (Inl e) \<Rightarrow> Some (Inl e)
      | Some (Inr (models, qs)) \<Rightarrow>
          Some (Inr (case models0 of
                       ManyModels ms \<Rightarrow> LoadedMany models
                     | OneModel m \<Rightarrow> (case models of [] \<Rightarrow> LoadedUndefined | x # xs \<Rightarrow> LoadedOne x),
                     qs)))"

section \<open>A small SQL layer for the examples\<close>

text \<open>
  The external SQL layer executes a statement and returns rows. The properties below hold
  for every such layer; the examples run on this one: tables of rows, and a find that
  returns the rows of the statement's table that satisfy its clauses, in table order
  (\<^verbatim>\<open>and\<close> binds tighter than \<^verbatim>\<open>or\<close>; a comparison with null is never true; joins and bridge
  predicates are not evaluated).
\<close>

definition col_name :: "string \<Rightarrow> string" where
  "col_name c = rev (takeWhile (\<lambda>x. x \<noteq> CHR ''.'') (rev c))"

fun holds :: "row \<Rightarrow> predicate \<Rightarrow> bool" where
  "holds r (Cmp c opr v) =
     (opr = ''='' \<and> field r (col_name c) = v \<and> v \<noteq> JNull \<and> v \<noteq> JUndefined)"
| "holds r (In c vs) =
     (field r (col_name c) \<in> set vs \<and> field r (col_name c) \<noteq> JNull \<and>
      field r (col_name c) \<noteq> JUndefined)"
| "holds r (NotNull c) = (field r (col_name c) \<noteq> JNull \<and> field r (col_name c) \<noteq> JUndefined)"
| "holds r (InBridge c t s oc ks) = False"

fun where_holds :: "row \<Rightarrow> bool \<Rightarrow> (connective \<times> predicate) list \<Rightarrow> bool" where
  "where_holds r acc [] = acc"
| "where_holds r acc ((CAnd, p) # cs) = where_holds r (acc \<and> holds r p) cs"
| "where_holds r acc ((COr, p) # cs) = (acc \<or> where_holds r (holds r p) cs)"

definition select_rows :: "(string \<Rightarrow> row list) \<Rightarrow> builder \<Rightarrow> row list" where
  "select_rows tables b = filter (\<lambda>r. where_holds r True (wheres b)) (tables (table b))"

section \<open>Example classes and objects\<close>

text \<open>The related model class of the relation tests: table \<^verbatim>\<open>RelatedModel\<close>, no schema.\<close>

definition RelatedModel :: model_class where
  "RelatedModel = \<lparr>cname = ''RelatedModel'', tableName = ''RelatedModel'', idColumn = ''id'',
     jsonSchema = None, jsonAttributes = None, relationMappings = []\<rparr>"

definition related_instance :: "string \<Rightarrow> object" where
  "related_instance s = \<lparr>ctor = Some ''RelatedModel'', props = [''a'' \<mapsto> JStr s]\<rparr>"

text \<open>
  The schema of the patch test (\<^verbatim>\<open>required: ['b']\<close>, string properties \<^verbatim>\<open>a\<close> and \<^verbatim>\<open>b\<close>), and
  the same schema with a default for \<^verbatim>\<open>b\<close>.
\<close>

definition schema_b_required :: json_schema where
  "schema_b_required = \<lparr>required = [''b''],
     properties = [(''a'', \<lparr>ptype = Some TString, pdefault = None\<rparr>),
                   (''b'', \<lparr>ptype = Some TString, pdefault = None\<rparr>)]\<rparr>"

definition schema_b_default :: json_schema where
  "schema_b_default = \<lparr>required = [''b''],
     properties = [(''a'', \<lparr>ptype = Some TString, pdefault = None\<rparr>),
                   (''b'', \<lparr>ptype = Some TString, pdefault = Some (JStr ''x'')\<rparr>)]\<rparr>"

definition RelatedWithSchema :: model_class where
  "RelatedWithSchema = RelatedModel\<lparr>jsonSchema := Some schema_b_required\<rparr>"

definition RelatedWithDefault :: model_class where
  "RelatedWithDefault = RelatedModel\<lparr>jsonSchema := Some schema_b_default\<rparr>"

text \<open>The plain object \<^verbatim>\<open>{a: 'str1'}\<close> and a stored instance \<^verbatim>\<open>{a: 'str1', id: 5}\<close>.\<close>

definition plain_a :: object where
  "plain_a = \<lparr>ctor = None, props = [''a'' \<mapsto> JStr ''str1'']\<rparr>"

definition instance_a5 :: object where
  "instance_a5 = \<lparr>ctor = Some ''RelatedModel'', props = [''a'' \<mapsto> JStr ''str1'', ''id'' \<mapsto> JNum 5]\<rparr>"

definition related_builder :: builder where
  "related_builder = \<lparr>table = ''RelatedModel'', operation = Find, wheres = [], joins = [],
     selects = [], returning = None\<rparr>"

text \<open>
  The relation of the has-many relation test: \<^verbatim>\<open>OwnerModel.oid\<close> to
  \<^verbatim>\<open>RelatedModel.ownerId\<close>, and its owner class.
\<close>

definition nameOfOurRelation :: relation where
  "nameOfOurRelation = \<lparr>rname = ''nameOfOurRelation'', kind = HasManyRelation,
     relatedModelClass = ''RelatedModel'', joinFrom = ''OwnerModel.oid'',
     joinTo = ''RelatedModel.ownerId'', ownerProp = ''oid'', relatedProp = ''ownerId'',
     joinTable = '''', joinTableOwnerCol = '''', joinTableRelatedCol = ''''\<rparr>"

definition OwnerModel :: model_class where
  "OwnerModel = \<lparr>cname = ''OwnerModel'', tableName = ''OwnerModel'', idColumn = ''id'',
     jsonSchema = None, jsonAttributes = None,
     relationMappings = [(''nameOfOurRelation'', nameOfOurRelation)]\<rparr>"

text \<open>
  The first model class of the eager tests with its has-one relation to itself
  (\<^verbatim>\<open>Model1.model1Id\<close> to \<^verbatim>\<open>Model1.id\<close>), and the chain of rows 1 to 4 that the test
  populates.
\<close>

definition model1Relation1 :: relation where
  "model1Relation1 = \<lparr>rname = ''model1Relation1'', kind = HasOneRelation,
     relatedModelClass = ''Model1'', joinFrom = ''Model1.model1Id'',
     joinTo = ''Model1.id'', ownerProp = ''model1Id'', relatedProp = ''id'',
     joinTable = '''', joinTableOwnerCol = '''', joinTableRelatedCol = ''''\<rparr>"

definition Model1 :: model_class where
  "Model1 = \<lparr>cname = ''Model1'', tableName = ''Model1'', idColumn = ''id'',
     jsonSchema = None, jsonAttributes = None,
     relationMappings = [(''model1Relation1'', model1Relation1)]\<rparr>"

definition test_classes :: "string \<Rightarrow> model_class" where
  "test_classes n = (if n = ''Model1'' then Model1 else if n = ''OwnerModel'' then OwnerModel
     else RelatedModel)"

definition model1_row :: "int \<Rightarrow> jsval \<Rightarrow> row" where
  "model1_row i next = [(''id'', JNum i), (''model1Id'', next)]"

definition test_tables :: "string \<Rightarrow> row list" where
  "test_tables t =
     (if t = ''Model1''
      then [model1_row 1 (JNum 2), model1_row 2 (JNum 3), model1_row 3 (JNum 4), model1_row 4 JNull]
      else if t = ''RelatedModel''
      then [[(''a'', JNum 1), (''ownerId'', JNum 666)], [(''a'', JNum 2), (''ownerId'', JNum 666)],
            [(''a'', JNum 3), (''ownerId'', JNum 667)], [(''a'', JNum 4), (''ownerId'', JNum 667)]]
      else [])"

text \<open>The expression \<^verbatim>\<open>model1Relation1.^\<close>: the relation, recursive.\<close>

definition expr_a_recursive :: expr where
  "expr_a_recursive =
     Node None [(''model1Relation1'', Node (Some ''model1Relation1'') [] False True)] False False"

text \<open>
  The owners and the caller's predicates of the find tests: owners with \<^verbatim>\<open>oid\<close> 666 and
  667, and a builder with \<^verbatim>\<open>where('name', 'Teppo').orWhere('age', '>', 60)\<close>.
\<close>

definition owner_model :: "int \<Rightarrow> model" where
  "owner_model k = Model [(''oid'', JNum k)] []"

definition teppo_builder :: builder where
  "teppo_builder = related_builder\<lparr>wheres :=
     [(CAnd, Cmp ''name'' ''='' (JStr ''Teppo'')), (COr, Cmp ''age'' ''>'' (JNum 60))]\<rparr>"



section \<open>The store\<close>

lemma length_set_prop [simp]: "length (set_prop h a k v) = length h"
  by (simp add: set_prop_def)

lemma props_set_prop_same:
  "a < length h \<Longrightarrow> props (set_prop h a k v ! a) k = Some v"
  by (simp add: set_prop_def)

lemma props_set_prop_other:
  "b \<noteq> a \<Longrightarrow> set_prop h a k v ! b = h ! b"
  by (simp add: set_prop_def)

section \<open>Ids after an insert\<close>

text \<open>
  Within the range where doubles count exactly, from \<open>- (2 ^ 53)\<close> to \<open>2 ^ 53\<close>, rounding
  changes nothing, and the loop builds the \<open>n\<close> consecutive ids that end in \<open>L\<close>, in
  ascending order.
\<close>

lemma ulp_small: "a < 2 ^ 53 \<Longrightarrow> ulp a = 1"
  by (subst ulp.simps) simp

lemma ulp_next: "2 ^ 53 \<le> a \<Longrightarrow> a < 2 ^ 54 \<Longrightarrow> ulp a = 2"
  by (subst ulp.simps) (simp add: ulp_small)

lemma round_double_exact:
  assumes "\<bar>n\<bar> \<le> 2 ^ 53"
  shows "round_double n = n"
proof (cases "nat \<bar>n\<bar> < 2 ^ 53")
  case True
  then show ?thesis by (simp add: round_double_def ulp_small Let_def sgn_if)
next
  case False
  with assms have a: "nat \<bar>n\<bar> = 2 ^ 53" by simp
  have "ulp (2 ^ 53) = 2" by (rule ulp_next) simp_all
  moreover from a have "n = 2 ^ 53 \<or> n = - (2 ^ 53)" by auto
  ultimately show ?thesis using a by (auto simp: round_double_def Let_def sgn_if)
qed

lemma unshift_ids_eq:
  "L \<le> 2 ^ 53 \<Longrightarrow> - (2 ^ 53) \<le> L - int n + 1 \<Longrightarrow>
   unshift_ids n L ids = map (\<lambda>k. L - int n + 1 + int k) [0..<n] @ ids"
proof (induction n arbitrary: L ids)
  case 0
  show ?case by simp
next
  case (Suc n)
  show ?case
  proof (cases n)
    case 0
    then show ?thesis by simp
  next
    case (Suc m)
    with Suc.prems have "\<bar>L - 1\<bar> \<le> 2 ^ 53" by simp
    then have d: "js_dec L = L - 1" by (simp add: js_dec_def round_double_exact)
    have "unshift_ids n (L - 1) (L # ids) = map (\<lambda>k. L - 1 - int n + 1 + int k) [0..<n] @ L # ids"
      using Suc.prems by (intro Suc.IH) simp_all
    also have "\<dots> = map (\<lambda>k. L - int (Suc n) + 1 + int k) [0..<Suc n] @ ids"
      by simp
    finally show ?thesis using d by simp
  qed
qed

lemma each_set_id_frame:
  "each_set_id h C (map Some as) idx ids = Inr h' \<Longrightarrow>
     length h' = length h \<and> (\<forall>b. b \<notin> set as \<longrightarrow> h' ! b = h ! b)"
proof (induction as arbitrary: h idx)
  case Nil
  then show ?case by simp
next
  case (Cons a as)
  then show ?case
    by (auto simp: S_id_set_def props_set_prop_other split: sum.splits)
qed

lemma each_set_id_assigns:
  "each_set_id h C (map Some as) idx ids = Inr h' \<Longrightarrow>
   \<forall>a\<in>set as. a < length h \<Longrightarrow> i < length as \<Longrightarrow> as ! i \<notin> set (drop (Suc i) as) \<Longrightarrow>
     S_id h' C (as ! i) = Inr (ids_at ids (idx + i))"
proof (induction as arbitrary: h idx i)
  case Nil
  then show ?case by simp
next
  case (Cons a as)
  from Cons.prems(1) obtain p h1 where p: "getIdProperty C = Inr p"
    and h1: "h1 = set_prop h a p (ids_at ids idx)"
    and rest: "each_set_id h1 C (map Some as) (Suc idx) ids = Inr h'"
    by (auto simp: S_id_set_def split: sum.splits)
  show ?case
  proof (cases i)
    case 0
    with Cons.prems(4) have "a \<notin> set as" by simp
    with each_set_id_frame [OF rest] have "h' ! a = h1 ! a" by blast
    moreover from Cons.prems(2) have "a < length h" by simp
    ultimately show ?thesis using 0 p h1
      by (simp add: S_id_def props_set_prop_same)
  next
    case (Suc j)
    have "S_id h' C (as ! j) = Inr (ids_at ids (Suc idx + j))"
      using Cons.IH [OF rest] Cons.prems Suc h1 by simp
    then show ?thesis using Suc by simp
  qed
qed

text \<open>
  C10, amended. The callback of \<^verbatim>\<open>MoronModel.$$insert\<close> runs on the live models \<open>as\<close> with
  the ids \<open>ids0\<close> that the database returned, and succeeds; \<open>i\<close> is a position of the
  array whose instance is not listed again at a later position. When \<open>N > 1\<close>, the
  database returned the single id \<open>L\<close>, and \<open>L - N + 1\<close> and \<open>L\<close> are within the range
  where numbers count exactly (\<open>- (2 ^ 53)\<close> to \<open>2 ^ 53\<close>), the \<open>i\<close>-th model has the id
  \<open>L - N + 1 + i\<close> afterwards: the consecutive ids \<open>L - N + 1\<close> to \<open>L\<close> in input order.
  When the database returned \<open>N\<close> ids, the \<open>i\<close>-th model has the \<open>i\<close>-th of them.
\<close>

theorem insert_callback_assigns_ids:
  assumes run: "insert_callback h C (Some (map Some as)) models0 ids0 = Inr (h', r)"
    and valid: "\<forall>a\<in>set as. a < length h"
    and i: "i < length as"
    and last: "as ! i \<notin> set (drop (Suc i) as)"
  shows "(1 < length as \<and> ids0 = [L] \<and> L \<le> 2 ^ 53 \<and> - (2 ^ 53) \<le> L - int (length as) + 1 \<longrightarrow>
            S_id h' C (as ! i) = Inr (JNum (L - int (length as) + 1 + int i))) \<and>
         (length ids0 = length as \<longrightarrow> S_id h' C (as ! i) = Inr (JNum (ids0 ! i)))"
proof (intro conjI impI)
  assume a: "1 < length as \<and> ids0 = [L] \<and> L \<le> 2 ^ 53 \<and> - (2 ^ 53) \<le> L - int (length as) + 1"
  with run have "each_set_id h C (map Some as) 0 (unshift_ids (length as) L []) = Inr h'"
    by (auto simp: insert_callback_def split: sum.splits)
  from each_set_id_assigns [OF this valid i last] a
  show "S_id h' C (as ! i) = Inr (JNum (L - int (length as) + 1 + int i))"
    using i by (simp add: ids_at_def unshift_ids_eq)
next
  assume b: "length ids0 = length as"
  then have "\<not> (length ids0 = 1 \<and> 1 < length as)" by simp
  with run have "each_set_id h C (map Some as) 0 ids0 = Inr h'"
    by (auto simp: insert_callback_def split: sum.splits)
  from each_set_id_assigns [OF this valid i last]
  show "S_id h' C (as ! i) = Inr (JNum (ids0 ! i))"
    using i b by (simp add: ids_at_def)
qed

lemmas callback_defs = insert_callback_def S_id_set_def S_id_def getIdProperty_def
  columnNameToPropertyName_def getJsonAttributes_def RelatedModel_def isArray_def Let_def
  related_instance_def set_prop_def ids_at_def

lemma insert_callback_example:
  "\<exists>h' r. insert_callback [related_instance ''str1'', related_instance ''str2'', related_instance ''str3'']
        RelatedModel (Some (map Some [0, 1, 2])) (Many [Ref 0, Ref 1, Ref 2]) [10] = Inr (h', r)"
  by (simp add: callback_defs)

text \<open>
  Three models and the single returned id 10: the models get the ids 8, 9 and 10.
\<close>

theorem insert_callback_assigns_ids_witness:
  "\<exists>h' r. insert_callback [related_instance ''str1'', related_instance ''str2'', related_instance ''str3'']
        RelatedModel (Some (map Some [0, 1, 2])) (Many [Ref 0, Ref 1, Ref 2]) [10] = Inr (h', r) \<and>
      S_id h' RelatedModel 0 = Inr (JNum 8) \<and>
      S_id h' RelatedModel 1 = Inr (JNum 9) \<and>
      S_id h' RelatedModel 2 = Inr (JNum 10)"
proof -
  let ?h = "[related_instance ''str1'', related_instance ''str2'', related_instance ''str3'']"
  from insert_callback_example obtain h' r where
    run: "insert_callback ?h RelatedModel (Some (map Some [0, 1, 2])) (Many [Ref 0, Ref 1, Ref 2]) [10]
            = Inr (h', r)"
    by blast
  have v: "\<forall>a\<in>set [0::nat, 1, 2]. a < length ?h" by simp
  have "S_id h' RelatedModel ([0, 1, 2] ! 0) = Inr (JNum (10 - int (length [0::nat, 1, 2]) + 1 + int 0))"
    using insert_callback_assigns_ids [OF run v, of 0 10] by simp
  moreover have "S_id h' RelatedModel ([0, 1, 2] ! 1) = Inr (JNum (10 - int (length [0::nat, 1, 2]) + 1 + int 1))"
    using insert_callback_assigns_ids [OF run v, of 1 10] by simp
  moreover have "S_id h' RelatedModel ([0, 1, 2] ! 2) = Inr (JNum (10 - int (length [0::nat, 1, 2]) + 1 + int 2))"
    using insert_callback_assigns_ids [OF run v, of 2 10] by simp
  ultimately show ?thesis using run by simp
qed

lemma js_dec_beyond: "js_dec 9007199254740996 = 9007199254740996"
  by (simp add: js_dec_def round_double_def ulp_next Let_def)

text \<open>
  The claim as stated fails beyond the exact range and for an instance listed twice.
  With three models and the returned id \<open>2 ^ 53 + 4\<close>, the decrement rounds back to the
  same number, and all three models get the id \<open>2 ^ 53 + 4\<close>, not the three
  consecutive ids. With the same instance at both positions and the ids 7 and 8
  returned, the instance ends with the id 8, so the model at the first position does
  not have the first id.
\<close>

theorem insert_ids_counterexample:
  "(case insert_callback [related_instance ''str1'', related_instance ''str2'', related_instance ''str3'']
           RelatedModel (Some (map Some [0, 1, 2])) (Many [Ref 0, Ref 1, Ref 2]) [9007199254740996] of
      Inl e \<Rightarrow> False
    | Inr (h', r) \<Rightarrow>
        S_id h' RelatedModel 0 = Inr (JNum 9007199254740996) \<and>
        S_id h' RelatedModel 1 = Inr (JNum 9007199254740996) \<and>
        S_id h' RelatedModel 2 = Inr (JNum 9007199254740996)) \<and>
   (case insert_callback [related_instance ''str1''] RelatedModel (Some (map Some [0, 0]))
           (Many [Ref 0, Ref 0]) [7, 8] of
      Inl e \<Rightarrow> False
    | Inr (h', r) \<Rightarrow> S_id h' RelatedModel 0 = Inr (JNum 8))"
  by (simp add: callback_defs js_dec_beyond)

section \<open>Evaluation of the examples\<close>

lemmas eval_defs = SS_update_def SS_patch_def ensureModel_def fromJson_def S_setJson_def S_validate_def
  SS_mergeWithDefaults_def tv4_validateMultiple_def SS_parseValidationError_def is_present_def
  type_ok_def S_clone_def alloc_def getIdProperty_def columnNameToPropertyName_def
  getJsonAttributes_def delete_prop_def
  S_toDatabaseJson_def S_formatDatabaseJson_def SS_omitNonColumns_def SS_omitRelations_def
  getRelations_def own_json_def
  RelatedModel_def RelatedWithSchema_def RelatedWithDefault_def schema_b_required_def
  schema_b_default_def plain_a_def instance_a5_def related_builder_def Let_def

section \<open>Relate and unrelate without a relation\<close>

text \<open>
  C6. On a query built without a relation, by the class-level \<^verbatim>\<open>Model.query()\<close> or by the
  instance-level \<^verbatim>\<open>$query()\<close>, the hook that runs for relate and the hook that runs for
  unrelate raise an error, for every store, class, instance, argument and builder: no
  builder results, so nothing is performed.
\<close>

theorem relate_unrelate_without_relation_raise:
  "query h C (ReqRelate ids) b = Inl (Error ''relate makes no sense in this context'') \<and>
   query h C ReqUnrelate b = Inl (Error ''relate makes no sense in this context'') \<and>
   S_query h C self (ReqRelate ids) b = Inl (Error ''relate makes no sense in this context'') \<and>
   S_query h C self ReqUnrelate b = Inl (Error ''relate makes no sense in this context'')"
  by (simp add: query_def S_query_def)

section \<open>Update and patch: the id is stripped from the written record\<close>

lemma own_json_None: "json k = None \<Longrightarrow> own_json json k = None"
  by (simp add: own_json_def)

lemma format_foldl_None:
  "js k = None \<Longrightarrow>
   foldl (\<lambda>js attr. case js attr of
                        Some v \<Rightarrow> (if isObject v then js(attr \<mapsto> JJson v) else js)
                      | None \<Rightarrow> js) js attrs k = None"
proof (induction attrs arbitrary: js)
  case Nil
  then show ?case by simp
next
  case (Cons a attrs)
  show ?case
    by (simp, rule Cons.IH) (use Cons.prems in \<open>auto split: option.splits\<close>)
qed

lemma SS_omitNonColumns_None: "json k = None \<Longrightarrow> SS_omitNonColumns C json k = None"
  by (simp add: SS_omitNonColumns_def SS_omitRelations_def Let_def split: option.splits)

lemma S_toDatabaseJson_None:
  "props ob k = None \<Longrightarrow> S_toDatabaseJson C ob k = None"
  by (simp add: S_toDatabaseJson_def S_formatDatabaseJson_def SS_omitNonColumns_None
      format_foldl_None own_json_None)

lemma ensureModel_frame:
  "ensureModel h C x patch = Inr (h1, m) \<Longrightarrow>
     length h \<le> length h1 \<and> (\<forall>a<length h. h1 ! a = h ! a)"
  by (auto simp: ensureModel_def fromJson_def alloc_def nth_append
      split: item.splits option.splits if_splits sum.splits)

lemma update_core:
  assumes em: "ensureModel h C x patch = Inr (h1, Some m)"
    and cl: "S_clone h1 m = (h2, u)"
    and h3: "h3 = delete_prop h2 u p"
  shows "S_toDatabaseJson C (h3 ! u) p = None \<and> (\<forall>a<length h. h3 ! a = h ! a)"
proof -
  from cl have u: "u = length h1" and h2: "h2 = h1 @ [\<lparr>ctor = ctor (h1 ! m), props = props (h1 ! m)\<rparr>]"
    by (auto simp: S_clone_def alloc_def)
  from u h2 h3 have "props (h3 ! u) p = None"
    by (simp add: delete_prop_def)
  then have a: "S_toDatabaseJson C (h3 ! u) p = None" by (rule S_toDatabaseJson_None)
  from ensureModel_frame [OF em] have le: "length h \<le> length h1"
    and fr: "\<forall>a<length h. h1 ! a = h ! a" by auto
  have "\<forall>a<length h. h3 ! a = h ! a"
  proof (intro allI impI)
    fix a assume "a < length h"
    with le have "a < length h1" by simp
    with u h2 h3 have "h3 ! a = h1 ! a" by (simp add: delete_prop_def nth_append)
    with fr \<open>a < length h\<close> show "h3 ! a = h ! a" by simp
  qed
  with a show ?thesis by simp
qed

text \<open>
  C8. When \<^verbatim>\<open>$$update\<close> or \<^verbatim>\<open>$$patch\<close> of a record \<open>x\<close> succeeds, the statement is an update
  whose payload, the record written to the database, has no id property; and every
  object that existed before the call, the caller's input object among them, is the
  same afterwards, so the input keeps its id field.
\<close>

theorem update_patch_strip_id:
  "(SS_update h C b (Ref x) = Inr (h', b', r) \<longrightarrow>
      (\<exists>json p. operation b' = Update json \<and> getIdProperty C = Inr p \<and> json p = None) \<and>
      (\<forall>a<length h. h' ! a = h ! a)) \<and>
   (SS_patch h C b (Ref x) = Inr (h', b', r) \<longrightarrow>
      (\<exists>json p. operation b' = Update json \<and> getIdProperty C = Inr p \<and> json p = None) \<and>
      (\<forall>a<length h. h' ! a = h ! a))"
proof (intro conjI impI)
  assume "SS_update h C b (Ref x) = Inr (h', b', r)"
  then obtain h1 m h2 u p where em: "ensureModel h C (Ref x) False = Inr (h1, Some m)"
    and cl: "S_clone h1 m = (h2, u)" and p: "getIdProperty C = Inr p"
    and h': "h' = delete_prop h2 u p"
    and b': "b' = b\<lparr>operation := Update (S_toDatabaseJson C (h' ! u))\<rparr>"
    by (auto simp: SS_update_def Let_def split: sum.splits option.splits prod.splits)
  from update_core [OF em cl h'] p b'
  show "\<exists>json p. operation b' = Update json \<and> getIdProperty C = Inr p \<and> json p = None"
    and "\<forall>a<length h. h' ! a = h ! a" by auto
next
  assume "SS_patch h C b (Ref x) = Inr (h', b', r)"
  then obtain h1 m h2 u p where em: "ensureModel h C (Ref x) True = Inr (h1, Some m)"
    and cl: "S_clone h1 m = (h2, u)" and p: "getIdProperty C = Inr p"
    and h': "h' = delete_prop h2 u p"
    and b': "b' = b\<lparr>operation := Update (S_toDatabaseJson C (h' ! u))\<rparr>"
    by (auto simp: SS_patch_def Let_def split: sum.splits option.splits prod.splits)
  from update_core [OF em cl h'] p b'
  show "\<exists>json p. operation b' = Update json \<and> getIdProperty C = Inr p \<and> json p = None"
    and "\<forall>a<length h. h' ! a = h ! a" by auto
qed

lemma update_example:
  "\<exists>h' b' r. SS_update [instance_a5] RelatedModel related_builder (Ref 0) = Inr (h', b', r)"
  by (simp add: eval_defs)

text \<open>
  The update of the stored instance \<^verbatim>\<open>{a: 'str1', id: 5}\<close>: the payload has no \<^verbatim>\<open>id\<close> and
  the instance still has the id 5.
\<close>

theorem update_patch_strip_id_witness:
  "\<exists>h' b' r json. SS_update [instance_a5] RelatedModel related_builder (Ref 0) = Inr (h', b', r) \<and>
      operation b' = Update json \<and> json ''id'' = None \<and>
      props (h' ! 0) ''id'' = Some (JNum 5)"
proof -
  from update_example obtain h' b' r where
    run: "SS_update [instance_a5] RelatedModel related_builder (Ref 0) = Inr (h', b', r)" by blast
  have p: "getIdProperty RelatedModel = Inr ''id''" by (simp add: eval_defs)
  from update_patch_strip_id [of "[instance_a5]" RelatedModel related_builder 0 h' b' r] run p
  obtain json where "operation b' = Update json" and "json ''id'' = None"
    and "h' ! 0 = [instance_a5] ! 0" by auto
  with run show ?thesis by (simp add: instance_a5_def)
qed


section \<open>Validation of a patch and of an update\<close>

lemma merge_foldl_absent:
  "\<forall>kp\<in>set ps. fst kp = k \<longrightarrow> pdefault (snd kp) = None \<Longrightarrow>
   foldl (\<lambda>merged kp.
            if json (fst kp) = None
            then (case pdefault (snd kp) of Some d \<Rightarrow> merged(fst kp \<mapsto> d) | None \<Rightarrow> merged)
            else merged) acc ps k = acc k"
proof (induction ps arbitrary: acc)
  case Nil
  show ?case by simp
next
  case (Cons q ps)
  then show ?case by (auto split: option.splits)
qed

lemma mergeWithDefaults_absent:
  assumes "jsonSchema C = Some schema"
    and "\<forall>p. (k, p) \<in> set (properties schema) \<longrightarrow> pdefault p = None"
  shows "SS_mergeWithDefaults C json k = json k"
proof -
  from assms(2) have "\<forall>kp\<in>set (properties schema). fst kp = k \<longrightarrow> pdefault (snd kp) = None"
    by auto
  from merge_foldl_absent [OF this] assms(1) show ?thesis
    by (simp add: SS_mergeWithDefaults_def)
qed

lemma validate_missing_required:
  assumes "jsonSchema C = Some schema" and "k \<in> set (required schema)" and "json k = None"
  shows "\<exists>errs. S_validate C json False = Inl (ValidationError errs) \<and> MissingRequired k \<in> set errs"
proof -
  from assms(2,3) have "MissingRequired k \<in> set (tv4_validateMultiple json schema)"
    by (auto simp: tv4_validateMultiple_def is_present_def)
  moreover from this have "tv4_validateMultiple json schema \<noteq> []" by auto
  ultimately show ?thesis using assms(1)
    by (simp add: S_validate_def SS_parseValidationError_def)
qed

lemma validate_patch_errors:
  "S_validate C json True = Inl e \<Longrightarrow>
   \<exists>errs. e = ValidationError errs \<and> (\<forall>k. MissingRequired k \<notin> set errs) \<and>
     (\<exists>schema. jsonSchema C = Some schema \<and> (\<exists>kp\<in>set (properties schema). \<not> type_ok json kp))"
  by (auto simp: S_validate_def SS_parseValidationError_def tv4_validateMultiple_def Let_def
      filter_empty_conv split: option.splits if_splits)

lemma patch_error_cases:
  assumes "SS_patch h C b (Ref x) = Inl e" and "ctor (h ! x) = None"
  shows "(\<exists>e'. S_validate C (props (h ! x)) True = Inl e' \<and> e = e') \<or> getIdProperty C = Inl e"
  using assms
  by (auto simp: SS_patch_def ensureModel_def fromJson_def S_setJson_def S_clone_def alloc_def Let_def
      split: sum.splits option.splits prod.splits if_splits)

lemma getIdProperty_not_validation: "getIdProperty C \<noteq> Inl (ValidationError errs)"
  by (simp add: getIdProperty_def columnNameToPropertyName_def)

text \<open>
  C7, amended. For a model class with a schema and a plain-object record \<open>x\<close>: a patch of
  the record never fails on a missing required property (its validation fails only when
  a property that is present has the wrong type), while an update of the same record
  fails with a missing-required error when a required property is absent from the
  record and the schema declares no default for it.
\<close>

theorem patch_skips_required_update_checks:
  assumes schema: "jsonSchema C = Some schema"
    and plain: "ctor (h ! x) = None"
  shows "(\<forall>errs. SS_patch h C b (Ref x) = Inl (ValidationError errs) \<longrightarrow>
            (\<forall>k. MissingRequired k \<notin> set errs) \<and>
            (\<exists>kp\<in>set (properties schema). \<not> type_ok (props (h ! x)) kp)) \<and>
         (k \<in> set (required schema) \<and> props (h ! x) k = None \<and>
          (\<forall>p. (k, p) \<in> set (properties schema) \<longrightarrow> pdefault p = None) \<longrightarrow>
            (\<exists>errs. SS_update h C b (Ref x) = Inl (ValidationError errs) \<and>
                    MissingRequired k \<in> set errs))"
proof -
  have A: "\<forall>errs. SS_patch h C b (Ref x) = Inl (ValidationError errs) \<longrightarrow>
            (\<forall>k. MissingRequired k \<notin> set errs) \<and>
            (\<exists>kp\<in>set (properties schema). \<not> type_ok (props (h ! x)) kp)"
  proof (intro allI impI)
    fix errs
    assume e: "SS_patch h C b (Ref x) = Inl (ValidationError errs)"
    from patch_error_cases [OF e plain] getIdProperty_not_validation [of C errs]
    have "S_validate C (props (h ! x)) True = Inl (ValidationError errs)" by auto
    from validate_patch_errors [OF this] schema
    show "(\<forall>k. MissingRequired k \<notin> set errs) \<and>
          (\<exists>kp\<in>set (properties schema). \<not> type_ok (props (h ! x)) kp)" by auto
  qed
  have B: "k \<in> set (required schema) \<and> props (h ! x) k = None \<and>
          (\<forall>p. (k, p) \<in> set (properties schema) \<longrightarrow> pdefault p = None) \<longrightarrow>
            (\<exists>errs. SS_update h C b (Ref x) = Inl (ValidationError errs) \<and>
                    MissingRequired k \<in> set errs)"
  proof
    assume a: "k \<in> set (required schema) \<and> props (h ! x) k = None \<and>
          (\<forall>p. (k, p) \<in> set (properties schema) \<longrightarrow> pdefault p = None)"
    then have m: "SS_mergeWithDefaults C (props (h ! x)) k = None"
      using mergeWithDefaults_absent [OF schema, of k "props (h ! x)"] by simp
    from a have r: "k \<in> set (required schema)" by simp
    from validate_missing_required [OF schema r, of "SS_mergeWithDefaults C (props (h ! x))"] m
    obtain errs where "S_validate C (SS_mergeWithDefaults C (props (h ! x))) False = Inl (ValidationError errs)"
      and "MissingRequired k \<in> set errs" by blast
    with plain show "\<exists>errs. SS_update h C b (Ref x) = Inl (ValidationError errs) \<and>
                    MissingRequired k \<in> set errs"
      by (simp add: SS_update_def ensureModel_def fromJson_def S_setJson_def)
  qed
  from A B show ?thesis by (rule conjI)
qed

text \<open>
  The schema with \<^verbatim>\<open>required: ['b']\<close> and the record \<^verbatim>\<open>{a: 'str1'}\<close>: the patch passes, the
  update fails on the missing \<^verbatim>\<open>b\<close>.
\<close>

theorem patch_skips_required_update_checks_witness:
  "\<not> isl (SS_patch [plain_a] RelatedWithSchema related_builder (Ref 0)) \<and>
   (\<exists>errs. SS_update [plain_a] RelatedWithSchema related_builder (Ref 0) = Inl (ValidationError errs) \<and>
           MissingRequired ''b'' \<in> set errs)"
proof -
  have s: "jsonSchema RelatedWithSchema = Some schema_b_required"
    by (simp add: RelatedWithSchema_def RelatedModel_def)
  have pl: "ctor ([plain_a] ! 0) = None" by (simp add: plain_a_def)
  have pre: "''b'' \<in> set (required schema_b_required) \<and> props ([plain_a] ! 0) ''b'' = None \<and>
      (\<forall>p. (''b'', p) \<in> set (properties schema_b_required) \<longrightarrow> pdefault p = None)"
    by (auto simp: schema_b_required_def plain_a_def)
  have "\<not> isl (SS_patch [plain_a] RelatedWithSchema related_builder (Ref 0))"
    by (simp add: eval_defs)
  with patch_skips_required_update_checks [OF s pl, of related_builder "''b''"] pre
  show ?thesis by blast
qed

text \<open>
  The claim as stated fails where the schema declares a default for the required
  property: \<^verbatim>\<open>b\<close> is required and missing from the record \<^verbatim>\<open>{a: 'str1'}\<close>, and the update
  passes, since the defaults are merged before validation.
\<close>

theorem update_required_default_counterexample:
  "''b'' \<in> set (required schema_b_default) \<and> props ([plain_a] ! 0) ''b'' = None \<and>
   \<not> isl (SS_patch [plain_a] RelatedWithDefault related_builder (Ref 0)) \<and>
   \<not> isl (SS_update [plain_a] RelatedWithDefault related_builder (Ref 0))"
  by (simp add: eval_defs)

section \<open>Batched find\<close>

lemmas tree_defs = find_run_def relation_find_def b_whereIn_def partition_onto_def groupBy_def
  association_def assign_def owner_link_def related_link_def field_def select_rows_def col_name_def
  test_tables_def nameOfOurRelation_def related_builder_def owner_model_def teppo_builder_def
  assoc_of_def Let_def

lemma set_uniq [simp]: "set (uniq xs) = set xs"
  by (induction xs rule: uniq.induct) auto

lemma distinct_uniq [simp]: "distinct (uniq xs)"
  by (induction xs rule: uniq.induct) auto

lemma subseq_uniq: "subseq (uniq xs) xs"
proof (induction xs rule: uniq.induct)
  case 1
  show ?case by simp
next
  case (2 x xs)
  have "subseq (filter (\<lambda>y. y \<noteq> x) xs) xs" by simp
  with 2 have "subseq (uniq (filter (\<lambda>y. y \<noteq> x) xs)) xs"
    by (rule subseq_order.trans)
  then show ?case by simp
qed

lemma relation_find_wheres:
  "\<exists>col. wheres (relation_find rel b ks) = wheres b @ [(CAnd, In col (uniq ks))]"
  by (cases "kind rel") (simp_all add: relation_find_def b_whereIn_def)

lemma groupBy_foldl:
  "foldl (\<lambda>g r. g(key r := g (key r) @ [r])) g0 rs k = g0 k @ filter (\<lambda>r. key r = k) rs"
  by (induction rs arbitrary: g0) auto

lemma groupBy_filter: "groupBy key rs k = filter (\<lambda>r. key r = k) rs"
  by (simp add: groupBy_def groupBy_foldl)

lemma assoc_of_assign [simp]: "assoc_of (assign k v m) k = Some v"
  by (simp add: assoc_of_def assign_def update_Some_unfold)

lemma mprops_assign [simp]: "mprops (assign k v m) = mprops m"
  by (simp add: assign_def)

lemma fetch_leaf:
  "fetch (Suc fuel) exec classes R (Node (Some n) [] False False) related = Some (Inr (related, []))"
  by (simp add: relation_names_def)

text \<open>
  C1. A find through a relation for a batch of owners, on a builder that holds any
  predicates of the caller, executes exactly one statement; its clauses are the
  caller's followed by one \<^verbatim>\<open>IN\<close> clause whose list holds every owner's linking key, each
  once, in the order of the owners. And at a level of the fetcher: for one or more
  owners and a declared relation, the level executes exactly one statement for the
  relation, with the \<^verbatim>\<open>IN\<close> clause on the deduplicated keys of the whole batch.
\<close>

theorem find_batch_one_query:
  "(\<exists>q col keys.
      snd (snd (find_run exec rel b owners)) = [q] \<and>
      wheres q = wheres b @ [(CAnd, In col keys)] \<and>
      set keys = owner_link rel ` set owners \<and>
      distinct keys \<and>
      subseq keys (map (owner_link rel) owners)) \<and>
   (owners \<noteq> [] \<and> getRelation C n = Inr rel \<longrightarrow>
      (\<exists>owners' q col.
         fetch (Suc (Suc fuel)) exec classes C (Node None [(n, Node (Some n) [] False False)] False False)
           owners = Some (Inr (owners', [q])) \<and>
         wheres q = [(CAnd, In col (uniq (map (owner_link rel) owners)))]))"
proof (rule conjI)
  obtain col where "wheres (relation_find rel b (map (owner_link rel) owners))
      = wheres b @ [(CAnd, In col (uniq (map (owner_link rel) owners)))]"
    using relation_find_wheres by blast
  then show "\<exists>q col keys.
      snd (snd (find_run exec rel b owners)) = [q] \<and>
      wheres q = wheres b @ [(CAnd, In col keys)] \<and>
      set keys = owner_link rel ` set owners \<and>
      distinct keys \<and>
      subseq keys (map (owner_link rel) owners)"
    by (auto simp: find_run_def Let_def subseq_uniq intro!: exI)
next
  show "owners \<noteq> [] \<and> getRelation C n = Inr rel \<longrightarrow>
      (\<exists>owners' q col.
         fetch (Suc (Suc fuel)) exec classes C (Node None [(n, Node (Some n) [] False False)] False False)
           owners = Some (Inr (owners', [q])) \<and>
         wheres q = [(CAnd, In col (uniq (map (owner_link rel) owners)))])"
  proof
    assume a: "owners \<noteq> [] \<and> getRelation C n = Inr rel"
    let ?R = "classes (relatedModelClass rel)"
    obtain col where c: "wheres (relation_find rel (new_builder ?R) (map (owner_link rel) owners))
        = wheres (new_builder ?R) @ [(CAnd, In col (uniq (map (owner_link rel) owners)))]"
      using relation_find_wheres by blast
    have "fetch (Suc (Suc fuel)) exec classes C (Node None [(n, Node (Some n) [] False False)] False False)
           owners =
          Some (Inr (partition_onto rel
                       (map (\<lambda>r. Model r [])
                          (exec (relation_find rel (new_builder ?R) (map (owner_link rel) owners))))
                       owners,
                     [relation_find rel (new_builder ?R) (map (owner_link rel) owners)]))"
      using a by (simp add: relation_names_def child_expr_def Let_def)
    with c show "\<exists>owners' q col.
         fetch (Suc (Suc fuel)) exec classes C (Node None [(n, Node (Some n) [] False False)] False False)
           owners = Some (Inr (owners', [q])) \<and>
         wheres q = [(CAnd, In col (uniq (map (owner_link rel) owners)))]"
      by (simp add: new_builder_def)
  qed
qed

text \<open>
  The owners 666, 667 and 666 again, on the builder of the test: one statement, whose
  \<^verbatim>\<open>IN\<close> list is 666, 667.
\<close>

theorem find_batch_one_query_witness:
  "(\<exists>q col keys.
      snd (snd (find_run (select_rows test_tables) nameOfOurRelation teppo_builder
                  [owner_model 666, owner_model 667, owner_model 666])) = [q] \<and>
      wheres q = wheres teppo_builder @ [(CAnd, In col keys)] \<and>
      set keys = {JNum 666, JNum 667} \<and> distinct keys) \<and>
   (\<exists>owners' q col.
      fetch (Suc (Suc 0)) (select_rows test_tables) test_classes OwnerModel
        (Node None [(''nameOfOurRelation'', Node (Some ''nameOfOurRelation'') [] False False)] False False)
        [owner_model 666, owner_model 667, owner_model 666] = Some (Inr (owners', [q])) \<and>
      wheres q = [(CAnd, In col [JNum 666, JNum 667])])"
proof -
  let ?owners = "[owner_model 666, owner_model 667, owner_model 666]"
  have pre: "?owners \<noteq> [] \<and> getRelation OwnerModel ''nameOfOurRelation'' = Inr nameOfOurRelation"
    by (simp add: getRelation_def getRelations_def OwnerModel_def)
  have img: "owner_link nameOfOurRelation ` set ?owners = {JNum 666, JNum 667}"
    by (auto simp: tree_defs)
  have u: "uniq (map (owner_link nameOfOurRelation) ?owners) = [JNum 666, JNum 667]"
    by (simp add: tree_defs)
  from find_batch_one_query [of "select_rows test_tables" nameOfOurRelation teppo_builder ?owners
      OwnerModel "''nameOfOurRelation''" 0 test_classes] pre
  show ?thesis unfolding img u by blast
qed

lemma partition_onto_nth:
  "i < length owners \<Longrightarrow>
   partition_onto rel related owners ! i =
     assign (rname rel)
       (association rel (filter (\<lambda>r. related_link rel r = owner_link rel (owners ! i)) related))
       (owners ! i)"
  by (simp add: partition_onto_def Let_def groupBy_filter)

text \<open>
  C2. After a batched find over the owners, the flat result is the rows of the one
  executed statement as instances, in query order; every owner keeps its fields, and its
  association field holds, for a has-many or many-to-many relation, exactly the related
  rows whose linking key equals the owner's key, in query order (the empty array when
  there is none), and for a has-one relation one related row with the owner's key, or
  null when there is none.
\<close>

theorem find_partitions_by_key:
  assumes run: "find_run exec rel b owners = (owners', flat, qs)"
    and i: "i < length owners"
  shows "(\<exists>q. qs = [q] \<and> flat = map (\<lambda>r. Model r []) (exec q)) \<and>
         length owners' = length owners \<and>
         mprops (owners' ! i) = mprops (owners ! i) \<and>
         (kind rel \<noteq> HasOneRelation \<longrightarrow>
            assoc_of (owners' ! i) (rname rel) =
              Some (AMany (filter (\<lambda>r. related_link rel r = owner_link rel (owners ! i)) flat))) \<and>
         (kind rel = HasOneRelation \<longrightarrow>
            (if \<exists>r\<in>set flat. related_link rel r = owner_link rel (owners ! i)
             then \<exists>r\<in>set flat. related_link rel r = owner_link rel (owners ! i) \<and>
                    assoc_of (owners' ! i) (rname rel) = Some (AOne r)
             else assoc_of (owners' ! i) (rname rel) = Some ANull))"
proof -
  let ?q = "relation_find rel b (map (owner_link rel) owners)"
  from run have flat: "flat = map (\<lambda>r. Model r []) (exec ?q)" and qs: "qs = [?q]"
    and o: "owners' = partition_onto rel flat owners"
    by (auto simp: find_run_def Let_def)
  let ?grp = "filter (\<lambda>r. related_link rel r = owner_link rel (owners ! i)) flat"
  from o i have nth: "owners' ! i = assign (rname rel) (association rel ?grp) (owners ! i)"
    by (simp add: partition_onto_nth)
  have len: "length owners' = length owners" using o by (simp add: partition_onto_def Let_def)
  have many: "kind rel \<noteq> HasOneRelation \<longrightarrow> association rel ?grp = AMany ?grp"
    by (cases "kind rel") (simp_all add: association_def)
  have one: "kind rel = HasOneRelation \<longrightarrow>
      (if \<exists>r\<in>set flat. related_link rel r = owner_link rel (owners ! i)
       then \<exists>r\<in>set flat. related_link rel r = owner_link rel (owners ! i) \<and>
              association rel ?grp = AOne r
       else association rel ?grp = ANull)"
  proof
    assume k: "kind rel = HasOneRelation"
    show "if \<exists>r\<in>set flat. related_link rel r = owner_link rel (owners ! i)
       then \<exists>r\<in>set flat. related_link rel r = owner_link rel (owners ! i) \<and>
              association rel ?grp = AOne r
       else association rel ?grp = ANull"
    proof (cases "?grp = []")
      case True
      then have "\<not> (\<exists>r\<in>set flat. related_link rel r = owner_link rel (owners ! i))"
        by (simp add: filter_empty_conv)
      with True k show ?thesis by (simp add: association_def)
    next
      case False
      then have "last ?grp \<in> set ?grp" by (rule last_in_set)
      then have "last ?grp \<in> set flat \<and> related_link rel (last ?grp) = owner_link rel (owners ! i)"
        by simp
      moreover from False k have "association rel ?grp = AOne (last ?grp)"
        by (simp add: association_def)
      ultimately show ?thesis by auto
    qed
  qed
  have first: "\<exists>q. qs = [q] \<and> flat = map (\<lambda>r. Model r []) (exec q)"
    using flat qs by blast
  have a: "assoc_of (owners' ! i) (rname rel) = Some (association rel ?grp)"
    and p: "mprops (owners' ! i) = mprops (owners ! i)"
    using nth by simp_all
  from many a have many': "kind rel \<noteq> HasOneRelation \<longrightarrow>
      assoc_of (owners' ! i) (rname rel) = Some (AMany ?grp)" by simp
  from one a have one': "kind rel = HasOneRelation \<longrightarrow>
      (if \<exists>r\<in>set flat. related_link rel r = owner_link rel (owners ! i)
       then \<exists>r\<in>set flat. related_link rel r = owner_link rel (owners ! i) \<and>
              assoc_of (owners' ! i) (rname rel) = Some (AOne r)
       else assoc_of (owners' ! i) (rname rel) = Some ANull)"
    unfolding a by (simp only: option.inject)
  from first len p many' one' show ?thesis by blast
qed

text \<open>
  The test \<^verbatim>\<open>should find for multiple owners\<close>: the four related rows come back flat, and
  each owner gets its two rows.
\<close>

theorem find_partitions_by_key_witness:
  "\<exists>owners' flat qs.
     find_run (select_rows test_tables) nameOfOurRelation related_builder
       [owner_model 666, owner_model 667] = (owners', flat, qs) \<and>
     flat = [Model [(''a'', JNum 1), (''ownerId'', JNum 666)] [],
             Model [(''a'', JNum 2), (''ownerId'', JNum 666)] [],
             Model [(''a'', JNum 3), (''ownerId'', JNum 667)] [],
             Model [(''a'', JNum 4), (''ownerId'', JNum 667)] []] \<and>
     assoc_of (owners' ! 0) ''nameOfOurRelation'' =
       Some (AMany [Model [(''a'', JNum 1), (''ownerId'', JNum 666)] [],
                    Model [(''a'', JNum 2), (''ownerId'', JNum 666)] []]) \<and>
     assoc_of (owners' ! 1) ''nameOfOurRelation'' =
       Some (AMany [Model [(''a'', JNum 3), (''ownerId'', JNum 667)] [],
                    Model [(''a'', JNum 4), (''ownerId'', JNum 667)] []])"
proof -
  let ?owners = "[owner_model 666, owner_model 667]"
  obtain owners' flat qs where
    run: "find_run (select_rows test_tables) nameOfOurRelation related_builder ?owners
            = (owners', flat, qs)"
    by (cases "find_run (select_rows test_tables) nameOfOurRelation related_builder ?owners") auto
  have "fst (snd (find_run (select_rows test_tables) nameOfOurRelation related_builder ?owners))
      = [Model [(''a'', JNum 1), (''ownerId'', JNum 666)] [],
         Model [(''a'', JNum 2), (''ownerId'', JNum 666)] [],
         Model [(''a'', JNum 3), (''ownerId'', JNum 667)] [],
         Model [(''a'', JNum 4), (''ownerId'', JNum 667)] []]"
    by (simp add: tree_defs)
  with run have flat: "flat = [Model [(''a'', JNum 1), (''ownerId'', JNum 666)] [],
         Model [(''a'', JNum 2), (''ownerId'', JNum 666)] [],
         Model [(''a'', JNum 3), (''ownerId'', JNum 667)] [],
         Model [(''a'', JNum 4), (''ownerId'', JNum 667)] []]" by simp
  have k: "kind nameOfOurRelation \<noteq> HasOneRelation" "rname nameOfOurRelation = ''nameOfOurRelation''"
    by (simp_all add: nameOfOurRelation_def)
  have "assoc_of (owners' ! 0) ''nameOfOurRelation'' =
      Some (AMany (filter (\<lambda>r. related_link nameOfOurRelation r = owner_link nameOfOurRelation (?owners ! 0)) flat))"
    using find_partitions_by_key [OF run, of 0] k by simp
  moreover have "assoc_of (owners' ! 1) ''nameOfOurRelation'' =
      Some (AMany (filter (\<lambda>r. related_link nameOfOurRelation r = owner_link nameOfOurRelation (?owners ! 1)) flat))"
    using find_partitions_by_key [OF run, of 1] k by simp
  ultimately show ?thesis using run flat
    by (simp add: related_link_def owner_link_def field_def nameOfOurRelation_def owner_model_def)
qed

section \<open>Mutations through a relation\<close>








section \<open>The shape of the result of insert and relate\<close>

lemma insert_callback_shape:
  "insert_callback h C models models0 ids = Inr (h', r) \<Longrightarrow> ret_is_array r = isArray models0"
  by (auto simp: insert_callback_def ret_is_array_def Let_def
      split: option.splits sum.splits list.splits if_splits)

lemma isArray_same_shape: "isArray (same_shape models0 (Some ms)) = isArray models0"
  by (cases models0) (auto simp: same_shape_def isArray_def split: list.splits)

lemma SS_insert_falsy:
  "SS_insert h C b (One Falsy) = Inr (h1, b1, models) \<Longrightarrow> models = None"
  by (auto simp: SS_insert_def ensureModelArray_def split: sum.splits)

lemma relation_insert_run_shape:
  assumes "relation_insert_run h R rel b k models0 ids = Inr (h', r, qs)"
  shows "ret_is_array r = isArray models0"
proof -
  from assms obtain h1 b1 models models1 where
    ins: "relation_insert h R rel b k models0 = Inr (h1, b1, models, models1)"
    and cb: "relation_insert_callback h1 R rel k models models1 ids = Inr (h', r, qs)"
    by (auto simp: relation_insert_run_def split: sum.splits)
  from cb obtain h2 where ic: "insert_callback h1 R models models1 ids = Inr (h2, r)"
    by (auto simp: relation_insert_callback_def split: sum.splits)
  then have shape: "ret_is_array r = isArray models1" by (rule insert_callback_shape)
  from ic have some: "models \<noteq> None"
    by (cases models) (auto simp: insert_callback_def)
  from ins obtain h0 m h3 where m1: "models1 = same_shape models0 m"
    and si: "SS_insert h3 R b (same_shape models0 m) = Inr (h1, b1, models)"
    by (auto simp: relation_insert_def split: sum.splits)
  have "m \<noteq> None"
  proof
    assume "m = None"
    with si have "SS_insert h3 R b (One Falsy) = Inr (h1, b1, models)"
      by (simp add: same_shape_def)
    from SS_insert_falsy [OF this] some show False by simp
  qed
  then obtain ms where "m = Some ms" by auto
  with m1 shape show ?thesis by (simp add: isArray_same_shape)
qed

text \<open>
  C4. Whenever the callback of \<^verbatim>\<open>$$insert\<close> returns, for any models, any input and any ids
  that the database returned, its result is an array exactly when the input was an array;
  the same holds for an insert through a relation from the input to the result; and the
  result of a relate has the shape of the ids passed in, whatever the database returned.
\<close>

theorem insert_relate_keep_shape:
  "(insert_callback h C models models0 ids = Inr (h', r) \<longrightarrow> ret_is_array r = isArray models0) \<and>
   (relation_insert_run h R rel b k models0 ids = Inr (h', r', qs) \<longrightarrow>
      ret_is_array r' = isArray models0) \<and>
   ids_is_array (relation_relate_result ids0 db_result) = ids_is_array ids0"
  using insert_callback_shape relation_insert_run_shape
  by (auto simp: relation_relate_result_def)

lemma relation_insert_run_example:
  "\<exists>h' r qs. relation_insert_run [plain_a] RelatedModel nameOfOurRelation related_builder (JNum 666)
      (One (Ref 0)) [1, 2, 3] = Inr (h', r, qs)"
  by (simp add: relation_insert_run_def relation_insert_def relation_insert_callback_def
      insert_callback_def SS_insert_def ensureModelArray_def ensureArray_def same_shape_def
      item_of_def generateId_def S_id_set_def isArray_def ids_at_def set_prop_def
      nameOfOurRelation_def eval_defs)

text \<open>
  Three models given as an array and one id returned: the result is an array. One plain
  object given as a scalar through the relation and three ids returned: the result is
  a scalar.
\<close>

theorem insert_relate_keep_shape_witness:
  "(\<exists>h' r. insert_callback [related_instance ''str1'', related_instance ''str2'', related_instance ''str3'']
        RelatedModel (Some (map Some [0, 1, 2])) (Many [Ref 0, Ref 1, Ref 2]) [10] = Inr (h', r) \<and>
      ret_is_array r) \<and>
   (\<exists>h' r qs. relation_insert_run [plain_a] RelatedModel nameOfOurRelation related_builder (JNum 666)
      (One (Ref 0)) [1, 2, 3] = Inr (h', r, qs) \<and> \<not> ret_is_array r)"
proof -
  let ?h = "[related_instance ''str1'', related_instance ''str2'', related_instance ''str3'']"
  from insert_callback_example obtain h1 r1 where
    a: "insert_callback ?h RelatedModel (Some (map Some [0, 1, 2])) (Many [Ref 0, Ref 1, Ref 2]) [10]
          = Inr (h1, r1)" by blast
  from relation_insert_run_example obtain h2 r2 qs where
    b: "relation_insert_run [plain_a] RelatedModel nameOfOurRelation related_builder (JNum 666)
          (One (Ref 0)) [1, 2, 3] = Inr (h2, r2, qs)" by blast
  from insert_relate_keep_shape [of ?h RelatedModel "Some (map Some [0, 1, 2])"
      "Many [Ref 0, Ref 1, Ref 2]" "[10]" h1 r1] a
  have "ret_is_array r1" by (simp add: isArray_def)
  moreover
  from insert_relate_keep_shape [where h = "[plain_a]" and R = RelatedModel
      and rel = nameOfOurRelation and b = related_builder and k = "JNum 666"
      and ?models0.0 = "One (Ref 0)" and ids = "[1, 2, 3]" and h' = h2 and r' = r2 and qs = qs] b
  have "\<not> ret_is_array r2" by (simp add: isArray_def)
  ultimately show ?thesis using a b by blast
qed

section \<open>Unknown relations\<close>










section \<open>Recursive eager fetch on a chain\<close>

lemma related_link_assign [simp]: "related_link rel (assign k v m) = related_link rel m"
  by (cases "kind rel") (simp_all add: related_link_def assign_def)

lemma partition_onto_single:
  "partition_onto rel related [owner] =
     [assign (rname rel)
        (association rel (filter (\<lambda>r. related_link rel r = owner_link rel owner) related)) owner]"
  by (simp add: partition_onto_def Let_def groupBy_filter)

lemma fetch_recursive_step:
  assumes rel: "getRelation C a = Inr rel"
    and self: "classes (relatedModelClass rel) = C"
    and ex: "exec (relation_find rel (new_builder C) [field r (ownerProp rel)]) = rows"
    and sub: "fetch fuel exec classes C (Node (Some a) [] False True) (map (\<lambda>r. Model r []) rows)
                = Some (Inr (related, qs))"
  shows "fetch (Suc fuel) exec classes C (Node (Some a) [] False True) [Model r []] =
           Some (Inr (partition_onto rel related [Model r []],
                      relation_find rel (new_builder C) [field r (ownerProp rel)] # qs))"
  using rel self ex sub
  by (simp add: relation_names_def child_expr_def Let_def owner_link_def)

lemma fetch_root_step:
  assumes rel: "getRelation C a = Inr rel"
    and self: "classes (relatedModelClass rel) = C"
    and ex: "exec (relation_find rel (new_builder C) [field r (ownerProp rel)]) = rows"
    and sub: "fetch fuel exec classes C (Node (Some a) [] False True) (map (\<lambda>r. Model r []) rows)
                = Some (Inr (related, qs))"
  shows "fetch (Suc fuel) exec classes C (Node None [(a, Node (Some a) [] False True)] False False)
           [Model r []] =
           Some (Inr (partition_onto rel related [Model r []],
                      relation_find rel (new_builder C) [field r (ownerProp rel)] # qs))"
  using rel self ex sub
  by (simp add: relation_names_def child_expr_def Let_def owner_link_def)

text \<open>
  C5. Relation \<open>a\<close> of class \<open>C\<close> relates \<open>C\<close> to itself, and the data chain from the
  root row \<open>r0\<close>: the find for \<open>r0\<close> returns the row \<open>r1\<close>, for \<open>r1\<close> the row \<open>r2\<close>, for
  \<open>r2\<close> the row \<open>r3\<close>, and for \<open>r3\<close> nothing. Then the fetch of \<^verbatim>\<open>a.^\<close> from the root
  returns, without an error, within five levels of recursion and for every larger
  bound: exactly the three levels below the root are populated, the association field
  at the fourth level is empty (null for has-one, the empty array otherwise), and four
  statements are executed, one per level.
\<close>

theorem recursive_fetch_chain:
  assumes rel: "getRelation C a = Inr rel"
    and self: "classes (relatedModelClass rel) = C"
    and e0: "exec (relation_find rel (new_builder C) [field r0 (ownerProp rel)]) = [r1]"
    and e1: "exec (relation_find rel (new_builder C) [field r1 (ownerProp rel)]) = [r2]"
    and e2: "exec (relation_find rel (new_builder C) [field r2 (ownerProp rel)]) = [r3]"
    and e3: "exec (relation_find rel (new_builder C) [field r3 (ownerProp rel)]) = []"
    and l1: "related_link rel (Model r1 []) = field r0 (ownerProp rel)"
    and l2: "related_link rel (Model r2 []) = field r1 (ownerProp rel)"
    and l3: "related_link rel (Model r3 []) = field r2 (ownerProp rel)"
  shows "loadRelated (Suc (Suc (Suc (Suc (Suc fuel))))) exec classes C (OneModel (Model r0 []))
           (Node None [(a, Node (Some a) [] False True)] False False) =
         Some (Inr (LoadedOne
           (assign (rname rel) (association rel
             [assign (rname rel) (association rel
               [assign (rname rel) (association rel
                 [assign (rname rel) (association rel []) (Model r3 [])])
                 (Model r2 [])])
               (Model r1 [])])
             (Model r0 [])),
           [relation_find rel (new_builder C) [field r0 (ownerProp rel)],
            relation_find rel (new_builder C) [field r1 (ownerProp rel)],
            relation_find rel (new_builder C) [field r2 (ownerProp rel)],
            relation_find rel (new_builder C) [field r3 (ownerProp rel)]]))"
proof -
  let ?rec = "Node (Some a) [] False True"
  let ?m3 = "assign (rname rel) (association rel []) (Model r3 [])"
  let ?m2 = "assign (rname rel) (association rel [?m3]) (Model r2 [])"
  let ?m1 = "assign (rname rel) (association rel [?m2]) (Model r1 [])"
  let ?m0 = "assign (rname rel) (association rel [?m1]) (Model r0 [])"
  let ?q = "\<lambda>r. relation_find rel (new_builder C) [field r (ownerProp rel)]"
  have f4: "fetch (Suc fuel) exec classes C ?rec (map (\<lambda>r. Model r []) []) = Some (Inr ([], []))"
    by simp
  from fetch_recursive_step [OF rel self e3 f4]
  have f3: "fetch (Suc (Suc fuel)) exec classes C ?rec (map (\<lambda>r. Model r []) [r3])
              = Some (Inr ([?m3], [?q r3]))"
    by (simp add: partition_onto_single)
  from fetch_recursive_step [OF rel self e2 f3]
  have f2: "fetch (Suc (Suc (Suc fuel))) exec classes C ?rec (map (\<lambda>r. Model r []) [r2])
              = Some (Inr ([?m2], [?q r2, ?q r3]))"
    by (simp add: partition_onto_single owner_link_def l3)
  from fetch_recursive_step [OF rel self e1 f2]
  have f1: "fetch (Suc (Suc (Suc (Suc fuel)))) exec classes C ?rec (map (\<lambda>r. Model r []) [r1])
              = Some (Inr ([?m1], [?q r1, ?q r2, ?q r3]))"
    by (simp add: partition_onto_single owner_link_def l2)
  from fetch_root_step [OF rel self e0 f1]
  have "fetch (Suc (Suc (Suc (Suc (Suc fuel))))) exec classes C
          (Node None [(a, ?rec)] False False) [Model r0 []]
        = Some (Inr ([?m0], [?q r0, ?q r1, ?q r2, ?q r3]))"
    by (simp add: partition_onto_single owner_link_def l1)
  then show ?thesis by (simp add: loadRelated_def del: fetch.simps)
qed

lemmas chain_defs = getRelation_def getRelations_def Model1_def model1Relation1_def test_classes_def
  new_builder_def model1_row_def

text \<open>
  The chain of the eager test, rows 1 to 4 of \<^verbatim>\<open>Model1\<close>, and the expression
  \<^verbatim>\<open>model1Relation1.^\<close>: rows 2, 3 and 4 are nested below row 1, and row 4 has null.
\<close>

theorem recursive_fetch_chain_witness:
  "\<exists>qs. loadRelated (Suc (Suc (Suc (Suc (Suc 0))))) (select_rows test_tables) test_classes Model1
       (OneModel (Model (model1_row 1 (JNum 2)) [])) expr_a_recursive =
     Some (Inr (LoadedOne
       (Model (model1_row 1 (JNum 2)) [(''model1Relation1'', AOne
         (Model (model1_row 2 (JNum 3)) [(''model1Relation1'', AOne
           (Model (model1_row 3 (JNum 4)) [(''model1Relation1'', AOne
             (Model (model1_row 4 JNull) [(''model1Relation1'', ANull)]))]))]))]), qs)) \<and>
     length qs = 4"
proof -
  have rel: "getRelation Model1 ''model1Relation1'' = Inr model1Relation1"
    by (simp add: chain_defs)
  have self: "test_classes (relatedModelClass model1Relation1) = Model1"
    by (simp add: chain_defs)
  have e0: "select_rows test_tables (relation_find model1Relation1 (new_builder Model1)
              [field (model1_row 1 (JNum 2)) (ownerProp model1Relation1)]) = [model1_row 2 (JNum 3)]"
    by (simp add: tree_defs chain_defs)
  have e1: "select_rows test_tables (relation_find model1Relation1 (new_builder Model1)
              [field (model1_row 2 (JNum 3)) (ownerProp model1Relation1)]) = [model1_row 3 (JNum 4)]"
    by (simp add: tree_defs chain_defs)
  have e2: "select_rows test_tables (relation_find model1Relation1 (new_builder Model1)
              [field (model1_row 3 (JNum 4)) (ownerProp model1Relation1)]) = [model1_row 4 JNull]"
    by (simp add: tree_defs chain_defs)
  have e3: "select_rows test_tables (relation_find model1Relation1 (new_builder Model1)
              [field (model1_row 4 JNull) (ownerProp model1Relation1)]) = []"
    by (simp add: tree_defs chain_defs)
  have l1: "related_link model1Relation1 (Model (model1_row 2 (JNum 3)) [])
              = field (model1_row 1 (JNum 2)) (ownerProp model1Relation1)"
    by (simp add: tree_defs chain_defs)
  have l2: "related_link model1Relation1 (Model (model1_row 3 (JNum 4)) [])
              = field (model1_row 2 (JNum 3)) (ownerProp model1Relation1)"
    by (simp add: tree_defs chain_defs)
  have l3: "related_link model1Relation1 (Model (model1_row 4 JNull) [])
              = field (model1_row 3 (JNum 4)) (ownerProp model1Relation1)"
    by (simp add: tree_defs chain_defs)
  from recursive_fetch_chain [where exec = "select_rows test_tables" and classes = test_classes
      and C = Model1 and a = "''model1Relation1''" and rel = model1Relation1
      and ?r0.0 = "model1_row 1 (JNum 2)" and ?r1.0 = "model1_row 2 (JNum 3)"
      and ?r2.0 = "model1_row 3 (JNum 4)" and ?r3.0 = "model1_row 4 JNull" and fuel = 0,
      OF rel self e0 e1 e2 e3 l1 l2 l3]
  show ?thesis
    by (simp add: expr_a_recursive_def assign_def association_def model1Relation1_def
        del: fetch.simps)
qed

end
